theory Spec2Isabelle
  imports Main
begin

section \<open>Resource model (resources.ts)\<close>

text \<open>
  The enumerations of \<^verbatim>\<open>resources.ts\<close>. \<^verbatim>\<open>Platform\<close> is imported there from
  \<^verbatim>\<open>./platform\<close>; the catalog and the tests use its two members.
\<close>

datatype ResourceType = ICON | SPLASH

datatype Platform = ANDROID | IOS

datatype Orientation = LANDSCAPE | PORTRAIT

datatype Density =
    LDPI | MDPI | HDPI | XHDPI | XXHDPI | XXXHDPI
  | LAND_LDPI | LAND_MDPI | LAND_HDPI | LAND_XHDPI | LAND_XXHDPI | LAND_XXXHDPI
  | PORT_LDPI | PORT_MDPI | PORT_HDPI | PORT_XHDPI | PORT_XXHDPI | PORT_XXXHDPI

datatype ResourceKey = SRC | NAME | WIDTH | HEIGHT | DENSITY | ORIENTATION

text \<open>
  \<^verbatim>\<open>ImageSchema\<close> (image.ts) has the two dimensions; \<^verbatim>\<open>ResourcesImageConfig\<close>
  has them too, and is passed where an \<^verbatim>\<open>ImageSchema\<close> is expected, so it is the
  record extension.
\<close>

record ImageSchema =
  width :: int
  height :: int

record ResourcesImageConfig = ImageSchema +
  name :: string
  density :: "Density option"
  orientation :: "Orientation option"

record ResourcesTypeConfig =
  images :: "ResourcesImageConfig list"
  nodeName :: string
  nodeAttributes :: "ResourceKey list"

definition img :: "string \<Rightarrow> int \<Rightarrow> int \<Rightarrow> Density option \<Rightarrow> Orientation option \<Rightarrow> ResourcesImageConfig" where
  "img n w h d ori = \<lparr>width = w, height = h, name = n, density = d, orientation = ori\<rparr>"

fun RESOURCES :: "Platform \<Rightarrow> ResourceType \<Rightarrow> ResourcesTypeConfig" where
  "RESOURCES ANDROID ICON = \<lparr>
     images = [
       img ''drawable-ldpi-icon.png'' 36 36 (Some LDPI) None,
       img ''drawable-mdpi-icon.png'' 48 48 (Some MDPI) None,
       img ''drawable-hdpi-icon.png'' 72 72 (Some HDPI) None,
       img ''drawable-xhdpi-icon.png'' 96 96 (Some XHDPI) None,
       img ''drawable-xxhdpi-icon.png'' 144 144 (Some XXHDPI) None,
       img ''drawable-xxxhdpi-icon.png'' 192 192 (Some XXXHDPI) None],
     nodeName = ''icon'',
     nodeAttributes = [SRC, DENSITY]\<rparr>"
| "RESOURCES ANDROID SPLASH = \<lparr>
     images = [
       img ''drawable-land-ldpi-screen.png'' 320 240 (Some LAND_LDPI) (Some LANDSCAPE),
       img ''drawable-land-mdpi-screen.png'' 480 320 (Some LAND_MDPI) (Some LANDSCAPE),
       img ''drawable-land-hdpi-screen.png'' 800 480 (Some LAND_HDPI) (Some LANDSCAPE),
       img ''drawable-land-xhdpi-screen.png'' 1280 720 (Some LAND_XHDPI) (Some LANDSCAPE),
       img ''drawable-land-xxhdpi-screen.png'' 1600 960 (Some LAND_XXHDPI) (Some LANDSCAPE),
       img ''drawable-land-xxxhdpi-screen.png'' 1920 1280 (Some LAND_XXXHDPI) (Some LANDSCAPE),
       img ''drawable-port-ldpi-screen.png'' 240 320 (Some PORT_LDPI) (Some PORTRAIT),
       img ''drawable-port-mdpi-screen.png'' 320 480 (Some PORT_MDPI) (Some PORTRAIT),
       img ''drawable-port-hdpi-screen.png'' 480 800 (Some PORT_HDPI) (Some PORTRAIT),
       img ''drawable-port-xhdpi-screen.png'' 720 1280 (Some PORT_XHDPI) (Some PORTRAIT),
       img ''drawable-port-xxhdpi-screen.png'' 960 1600 (Some PORT_XXHDPI) (Some PORTRAIT),
       img ''drawable-port-xxxhdpi-screen.png'' 1280 1920 (Some PORT_XXXHDPI) (Some PORTRAIT)],
     nodeName = ''splash'',
     nodeAttributes = [SRC, DENSITY]\<rparr>"
| "RESOURCES IOS ICON = \<lparr>
     images = [
       img ''icon.png'' 57 57 None None,
       img ''icon@2x.png'' 114 114 None None,
       img ''icon-40.png'' 40 40 None None,
       img ''icon-40@2x.png'' 80 80 None None,
       img ''icon-40@3x.png'' 120 120 None None,
       img ''icon-50.png'' 50 50 None None,
       img ''icon-50@2x.png'' 100 100 None None,
       img ''icon-60.png'' 60 60 None None,
       img ''icon-60@2x.png'' 120 120 None None,
       img ''icon-60@3x.png'' 180 180 None None,
       img ''icon-72.png'' 72 72 None None,
       img ''icon-72@2x.png'' 144 144 None None,
       img ''icon-76.png'' 76 76 None None,
       img ''icon-76@2x.png'' 152 152 None None,
       img ''icon-83.5@2x.png'' 167 167 None None,
       img ''icon-small.png'' 29 29 None None,
       img ''icon-small@2x.png'' 58 58 None None,
       img ''icon-small@3x.png'' 87 87 None None,
       img ''icon-1024.png'' 1024 1024 None None],
     nodeName = ''icon'',
     nodeAttributes = [SRC, WIDTH, HEIGHT]\<rparr>"
| "RESOURCES IOS SPLASH = \<lparr>
     images = [
       img ''Default-568h@2x~iphone.png'' 640 1136 None (Some PORTRAIT),
       img ''Default-667h.png'' 750 1334 None (Some PORTRAIT),
       img ''Default-736h.png'' 1242 2208 None (Some PORTRAIT),
       img ''Default-2436h.png'' 1125 2436 None (Some PORTRAIT),
       img ''Default-Landscape-736h.png'' 2208 1242 None (Some LANDSCAPE),
       img ''Default-Landscape-2436h.png'' 2436 1125 None (Some LANDSCAPE),
       img ''Default-Landscape@2x~ipad.png'' 2048 1536 None (Some LANDSCAPE),
       img ''Default-Landscape@~ipadpro.png'' 2732 2048 None (Some LANDSCAPE),
       img ''Default-Landscape~ipad.png'' 1024 768 None (Some LANDSCAPE),
       img ''Default-Portrait@2x~ipad.png'' 1536 2048 None (Some PORTRAIT),
       img ''Default-Portrait@~ipadpro.png'' 2048 2732 None (Some PORTRAIT),
       img ''Default-Portrait~ipad.png'' 768 1024 None (Some PORTRAIT),
       img ''Default@2x~iphone.png'' 640 960 None (Some PORTRAIT),
       img ''Default~iphone.png'' 320 480 None (Some PORTRAIT),
       img ''Default@2x~ipad~anyany.png'' 2732 2732 None None,
       img ''Default@2x~ipad~comany.png'' 1278 2732 None (Some PORTRAIT),
       img ''Default@2x~iphone~anyany.png'' 1334 1334 None None,
       img ''Default@2x~iphone~comany.png'' 750 1334 None (Some PORTRAIT),
       img ''Default@2x~iphone~comcom.png'' 1334 750 None (Some LANDSCAPE),
       img ''Default@3x~iphone~anyany.png'' 2436 2436 None None,
       img ''Default@3x~iphone~anycom.png'' 2436 1242 None (Some LANDSCAPE),
       img ''Default@3x~iphone~comany.png'' 1242 2436 None (Some PORTRAIT)],
     nodeName = ''splash'',
     nodeAttributes = [SRC, WIDTH, HEIGHT]\<rparr>"

text \<open>Every image of a resource type, over the platforms of the catalog.\<close>

definition catalog_images :: "ResourceType \<Rightarrow> ResourcesImageConfig list" where
  "catalog_images t = images (RESOURCES ANDROID t) @ images (RESOURCES IOS t)"

section \<open>Errors (the constructors image.ts and resources.ts call)\<close>

datatype ValidationErrorCode = BAD_IMAGE_FORMAT | BAD_IMAGE_SIZE

text \<open>
  The details object a validator passes to \<^verbatim>\<open>new ValidationError(message, details)\<close>.
  A key the object literal does not have reads as \<^verbatim>\<open>undefined\<close>, here \<open>None\<close>.
\<close>

record ValidationErrorDetails =
  err_source :: string
  err_type :: ResourceType
  err_code :: ValidationErrorCode
  err_format :: "string option"
  err_requiredFormat :: "string option"
  err_width :: "int option"
  err_height :: "int option"
  err_requiredWidth :: "int option"
  err_requiredHeight :: "int option"

record ValidationError =
  message :: string
  details :: ValidationErrorDetails

text \<open>
  What a promise of the program rejects with: a plain \<^verbatim>\<open>Error\<close> (of the file system or of
  the image library), a \<^verbatim>\<open>ValidationError\<close>, or the
  \<^verbatim>\<open>ResolveSourceImageError(message, errors)\<close> of the resolver.
\<close>

datatype js_error =
    Error string
  | ValidationErr ValidationError
  | ResolveSourceImageError string "js_error list"

text \<open>\<^verbatim>\<open>e instanceof ValidationError\<close>\<close>

fun instanceof_ValidationError :: "js_error \<Rightarrow> bool" where
  "instanceof_ValidationError (ValidationErr _) = True"
| "instanceof_ValidationError _ = False"

section \<open>The collaborators and the world they act on\<close>

type_synonym Buffer = "nat list"

type_synonym PngOptions = "(string \<times> int) list"

text \<open>
  A \<^verbatim>\<open>Sharp\<close> pipeline: the input buffer it was built from and the operations
  queued on it (\<^verbatim>\<open>resize\<close>, \<^verbatim>\<open>png\<close>).
\<close>

record Sharp =
  input :: Buffer
  resize_to :: "(int \<times> int) option"
  png_options :: "PngOptions option"

text \<open>The fields of \<^verbatim>\<open>pipeline.metadata()\<close> a validator reads; each may be undefined.\<close>

record Metadata =
  md_format :: "string option"
  md_width :: "int option"
  md_height :: "int option"

datatype WritableStream = WritableStream string

datatype event =
    FsReadFile string
  | SharpMetadata Sharp
  | SharpToBuffer Sharp
  | FsWriteFile string Buffer
  | FsEnsureDir string
  | StreamWrite WritableStream string
  | Invoke_resolveSourceImage ResourceType "string list"
  | Invoke_generateImage ImageSchema string

text \<open>
  The state the program acts on: the files by path, and the log of the calls made to the
  file system, the image library and the diagnostic stream, oldest first.
\<close>

record world =
  files :: "string \<rightharpoonup> Buffer"
  events :: "event list"

text \<open>
  The behaviour of the external libraries: what the image library decodes from a buffer
  (pixel counts are integers), what a pipeline encodes to, the error the file system
  raises for a path it has no file at, the paths it refuses to write or create, and how
  \<^verbatim>\<open>util.format\<close> prints an error for \<^verbatim>\<open>%s\<close>.
\<close>

record collaborators =
  fs_readFile_error :: "string \<Rightarrow> js_error"
  sharp_metadata :: "Buffer \<Rightarrow> js_error + Metadata"
  sharp_toBuffer :: "Sharp \<Rightarrow> js_error + Buffer"
  fs_writeFile_error :: "string \<Rightarrow> js_error option"
  fs_ensureDir_error :: "string \<Rightarrow> js_error option"
  util_format_error :: "js_error \<Rightarrow> string"

definition log_event :: "event \<Rightarrow> world \<Rightarrow> world" where
  "log_event e w = w\<lparr>events := events w @ [e]\<rparr>"

definition readFile :: "collaborators \<Rightarrow> string \<Rightarrow> world \<Rightarrow> (js_error + Buffer) \<times> world" where
  "readFile env path w =
     (case files w path of
        None \<Rightarrow> (Inl (fs_readFile_error env path), log_event (FsReadFile path) w)
      | Some buf \<Rightarrow> (Inr buf, log_event (FsReadFile path) w))"

text \<open>A write that fails is taken to leave the files as they were.\<close>

definition writeFile :: "collaborators \<Rightarrow> string \<Rightarrow> Buffer \<Rightarrow> world \<Rightarrow> (js_error + unit) \<times> world" where
  "writeFile env path buf w =
     (case fs_writeFile_error env path of
        Some e \<Rightarrow> (Inl e, log_event (FsWriteFile path buf) w)
      | None \<Rightarrow> (Inr (), log_event (FsWriteFile path buf) (w\<lparr>files := (files w)(path \<mapsto> buf)\<rparr>)))"

definition sharp :: "Buffer \<Rightarrow> Sharp" where
  "sharp buf = \<lparr>input = buf, resize_to = None, png_options = None\<rparr>"

definition resize :: "int \<Rightarrow> int \<Rightarrow> Sharp \<Rightarrow> Sharp" where
  "resize w h pipeline = pipeline\<lparr>resize_to := Some (w, h)\<rparr>"

definition png :: "PngOptions \<Rightarrow> Sharp \<Rightarrow> Sharp" where
  "png options pipeline = pipeline\<lparr>png_options := Some options\<rparr>"

definition metadata :: "collaborators \<Rightarrow> Sharp \<Rightarrow> world \<Rightarrow> (js_error + Metadata) \<times> world" where
  "metadata env pipeline w =
     (sharp_metadata env (input pipeline), log_event (SharpMetadata pipeline) w)"

definition toBuffer :: "collaborators \<Rightarrow> Sharp \<Rightarrow> world \<Rightarrow> (js_error + Buffer) \<times> world" where
  "toBuffer env pipeline w = (sharp_toBuffer env pipeline, log_event (SharpToBuffer pipeline) w)"

section \<open>JavaScript values in conditions and template strings\<close>

text \<open>\<^verbatim>\<open>!n\<close> for a number that may be undefined.\<close>

fun falsy :: "int option \<Rightarrow> bool" where
  "falsy None = True"
| "falsy (Some n) = (n = 0)"

text \<open>\<^verbatim>\<open>n < r\<close> for a number that may be undefined: undefined compares false.\<close>

fun js_less :: "int option \<Rightarrow> int \<Rightarrow> bool" where
  "js_less None r = False"
| "js_less (Some n) r = (n < r)"

definition digit_char :: "nat \<Rightarrow> char" where
  "digit_char d = char_of (48 + d)"

function show_nat :: "nat \<Rightarrow> string" where
  "show_nat n = (if n < 10 then [digit_char n] else show_nat (n div 10) @ [digit_char (n mod 10)])"
  by pat_completeness auto
termination
  by (relation "measure (\<lambda>n. n)") auto

declare show_nat.simps [simp del]

definition show_int :: "int \<Rightarrow> string" where
  "show_int i = (if i < 0 then ''-'' @ show_nat (nat (- i)) else show_nat (nat i))"

text \<open>\<^verbatim>\<open>${x}\<close> in a template string, for a value that may be undefined.\<close>

fun show_number :: "int option \<Rightarrow> string" where
  "show_number None = ''undefined''"
| "show_number (Some n) = show_int n"

fun show_string :: "string option \<Rightarrow> string" where
  "show_string None = ''undefined''"
| "show_string (Some s) = s"

text \<open>\<^verbatim>\<open>xs.join(sep)\<close>\<close>

fun join :: "string \<Rightarrow> string list \<Rightarrow> string" where
  "join sep [] = []"
| "join sep [x] = x"
| "join sep (x # y # ys) = x @ sep @ join sep (y # ys)"

section \<open>Validators (RESOURCE_VALIDATORS, resources.ts)\<close>

text \<open>
  The constants each validator declares before its checks
  (\<^verbatim>\<open>requiredFormat\<close>, \<^verbatim>\<open>requiredWidth\<close>, \<^verbatim>\<open>requiredHeight\<close>), by resource type.
\<close>

fun requiredFormat :: "ResourceType \<Rightarrow> string" where
  "requiredFormat ICON = ''png''"
| "requiredFormat SPLASH = ''png''"

fun requiredWidth :: "ResourceType \<Rightarrow> int" where
  "requiredWidth ICON = 1024"
| "requiredWidth SPLASH = 2732"

fun requiredHeight :: "ResourceType \<Rightarrow> int" where
  "requiredHeight ICON = 1024"
| "requiredHeight SPLASH = 2732"

fun RESOURCE_VALIDATORS ::
  "collaborators \<Rightarrow> ResourceType \<Rightarrow> string \<Rightarrow> Sharp \<Rightarrow> world \<Rightarrow> (js_error + unit) \<times> world" where
  "RESOURCE_VALIDATORS env ICON source pipeline w =
     (case metadata env pipeline w of
        (Inl e, w') \<Rightarrow> (Inl e, w')
      | (Inr md, w') \<Rightarrow>
          if md_format md \<noteq> Some (requiredFormat ICON) then
            (Inl (ValidationErr \<lparr>
               message = ''Icon source must be '' @ requiredFormat ICON
                 @ '' format (image format is \"'' @ show_string (md_format md) @ ''\").'',
               details = \<lparr>
                 err_source = source, err_type = ICON, err_code = BAD_IMAGE_FORMAT,
                 err_format = md_format md, err_requiredFormat = Some (requiredFormat ICON),
                 err_width = None, err_height = None,
                 err_requiredWidth = None, err_requiredHeight = None\<rparr>\<rparr>), w')
          else if falsy (md_width md) \<or> falsy (md_height md)
               \<or> js_less (md_width md) (requiredWidth ICON)
               \<or> js_less (md_height md) (requiredHeight ICON) then
            (Inl (ValidationErr \<lparr>
               message = ''Icon source does not meet minimum size requirements: ''
                 @ show_int (requiredWidth ICON) @ ''x'' @ show_int (requiredHeight ICON)
                 @ '' (image is '' @ show_number (md_width md) @ ''x''
                 @ show_number (md_height md) @ '').'',
               details = \<lparr>
                 err_source = source, err_type = ICON, err_code = BAD_IMAGE_SIZE,
                 err_format = None, err_requiredFormat = None,
                 err_width = md_width md, err_height = md_height md,
                 err_requiredWidth = Some (requiredWidth ICON),
                 err_requiredHeight = Some (requiredHeight ICON)\<rparr>\<rparr>), w')
          else (Inr (), w'))"
| "RESOURCE_VALIDATORS env SPLASH source pipeline w =
     (case metadata env pipeline w of
        (Inl e, w') \<Rightarrow> (Inl e, w')
      | (Inr md, w') \<Rightarrow>
          if md_format md \<noteq> Some (requiredFormat SPLASH) then
            (Inl (ValidationErr \<lparr>
               message = ''Splash Screen source must be '' @ requiredFormat SPLASH
                 @ '' format (image format is \"'' @ show_string (md_format md) @ ''\").'',
               details = \<lparr>
                 err_source = source, err_type = SPLASH, err_code = BAD_IMAGE_FORMAT,
                 err_format = md_format md, err_requiredFormat = Some (requiredFormat SPLASH),
                 err_width = None, err_height = None,
                 err_requiredWidth = None, err_requiredHeight = None\<rparr>\<rparr>), w')
          else if falsy (md_width md) \<or> falsy (md_height md)
               \<or> js_less (md_width md) (requiredWidth SPLASH)
               \<or> js_less (md_height md) (requiredHeight SPLASH) then
            (Inl (ValidationErr \<lparr>
               message = ''Splash Screen source does not meet minimum size requirements: ''
                 @ show_int (requiredWidth SPLASH) @ ''x'' @ show_int (requiredHeight SPLASH)
                 @ '' (image is '' @ show_number (md_width md) @ ''x''
                 @ show_number (md_height md) @ '').'',
               details = \<lparr>
                 err_source = source, err_type = SPLASH, err_code = BAD_IMAGE_SIZE,
                 err_format = None, err_requiredFormat = None,
                 err_width = md_width md, err_height = md_height md,
                 err_requiredWidth = Some (requiredWidth SPLASH),
                 err_requiredHeight = Some (requiredHeight SPLASH)\<rparr>\<rparr>), w')
          else (Inr (), w'))"

text \<open>The code of the validation failure a result carries, if it is one.\<close>

fun failure_code :: "js_error + 'a \<Rightarrow> ValidationErrorCode option" where
  "failure_code (Inl (ValidationErr v)) = Some (err_code (details v))"
| "failure_code _ = None"

fun failure_details :: "js_error + 'a \<Rightarrow> ValidationErrorDetails option" where
  "failure_details (Inl (ValidationErr v)) = Some (details v)"
| "failure_details _ = None"

section \<open>Source resolution (resolveSourceImage, image.ts)\<close>

text \<open>
  The body of the \<^verbatim>\<open>try\<close> block for one candidate: read the file, build the pipeline,
  run the validator of the type; the first rejection is what the \<^verbatim>\<open>catch\<close> receives.
\<close>

definition try_source ::
  "collaborators \<Rightarrow> ResourceType \<Rightarrow> string \<Rightarrow> world \<Rightarrow> (js_error + string \<times> Sharp) \<times> world" where
  "try_source env t source w =
     (case readFile env source w of
        (Inl e, w1) \<Rightarrow> (Inl e, w1)
      | (Inr buf, w1) \<Rightarrow>
          (let image = sharp buf in
           case RESOURCE_VALIDATORS env t source image w1 of
             (Inl e, w2) \<Rightarrow> (Inl e, w2)
           | (Inr u, w2) \<Rightarrow> (Inr (source, image), w2)))"

text \<open>
  The \<^verbatim>\<open>for\<close> loop over the sources, with the \<^verbatim>\<open>errors\<close> array it pushes to. It
  ends at the first candidate whose \<^verbatim>\<open>try\<close> block completes (the \<^verbatim>\<open>return\<close>).
\<close>

fun resolve_loop ::
  "collaborators \<Rightarrow> ResourceType \<Rightarrow> string list \<Rightarrow> (string \<times> js_error) list \<Rightarrow> world
    \<Rightarrow> ((string \<times> Sharp) option \<times> (string \<times> js_error) list) \<times> world" where
  "resolve_loop env t [] errors w = ((None, errors), w)"
| "resolve_loop env t (source # rest) errors w =
     (case try_source env t source w of
        (Inr found, w') \<Rightarrow> ((Some found, errors), w')
      | (Inl e, w') \<Rightarrow> resolve_loop env t rest (errors @ [(source, e)]) w')"

text \<open>
  One line of the diagnostic stream:
  \<^verbatim>\<open>util.format('WARN: Error with source file %s: %s', source, error)\<close> and a newline.
\<close>

definition warning_line :: "collaborators \<Rightarrow> string \<Rightarrow> js_error \<Rightarrow> string" where
  "warning_line env source error =
     (let message = ''WARN: Error with source file '' @ source @ '': '' @ util_format_error env error
      in message @ [CHR 0x0A])"

fun write_warnings ::
  "collaborators \<Rightarrow> WritableStream \<Rightarrow> (string \<times> js_error) list \<Rightarrow> world \<Rightarrow> world" where
  "write_warnings env errstream [] w = w"
| "write_warnings env errstream ((source, error) # rest) w =
     write_warnings env errstream rest
       (log_event (StreamWrite errstream (warning_line env source error)) w)"

definition resolveSourceImage ::
  "collaborators \<Rightarrow> ResourceType \<Rightarrow> string list \<Rightarrow> WritableStream option \<Rightarrow> world
    \<Rightarrow> (js_error + string \<times> Sharp) \<times> world" where
  "resolveSourceImage env t sources errstream w =
     (case resolve_loop env t sources [] w of
        ((Some found, errors), w1) \<Rightarrow> (Inr found, w1)
      | ((None, errors), w1) \<Rightarrow>
          (let w2 = (case errstream of
                       Some stream \<Rightarrow> write_warnings env stream errors w1
                     | None \<Rightarrow> w1)
           in (Inl (ResolveSourceImageError
                 (''Could not find suitable source image. Looked at: '' @ join '', '' sources)
                 (filter instanceof_ValidationError (map snd errors))), w2)))"

section \<open>Image generation (generateImage, transformImage, image.ts)\<close>

text \<open>The calls to \<^verbatim>\<open>debug\<close> write to the debug log only and are left out.\<close>

definition transformImage :: "'a ImageSchema_scheme \<Rightarrow> Sharp \<Rightarrow> PngOptions option \<Rightarrow> Sharp" where
  "transformImage image' src options = resize (width image') (height image') src"

definition generateImage ::
  "collaborators \<Rightarrow> 'a ImageSchema_scheme \<Rightarrow> Sharp \<Rightarrow> string \<Rightarrow> PngOptions option \<Rightarrow> world
    \<Rightarrow> (js_error + unit) \<times> world" where
  "generateImage env image' src dest options w =
     (let pipeline = transformImage image' src options in
      case (case options of
              Some opts \<Rightarrow> toBuffer env (png opts pipeline) w
            | None \<Rightarrow> toBuffer env pipeline w) of
        (Inl e, w1) \<Rightarrow> (Inl e, w1)
      | (Inr pipelineBuffer, w1) \<Rightarrow> writeFile env dest pipelineBuffer w1)"

section \<open>The platform runner\<close>

text \<open>
  Modelled from the spec: \<^verbatim>\<open>run\<close> of \<^verbatim>\<open>platform.ts\<close>, which is not among the source
  files (its test \<^verbatim>\<open>__tests__/platform.ts\<close> is). The spec's Platform Runner: for each
  requested resource type, in the caller's order, ensure the output directory exists, call
  the Source Resolver once with the type's candidate sources, then call the Image Generator
  once per ImageSpec of the type's catalog entry with the single resolved source, writing to
  \<^verbatim>\<open><outputRootDirectory>/<platform-specific path>/<spec.outputFileName>\<close>, and append
  one GeneratedImage per ImageSpec in catalog order; a failure is propagated. The
  platform-specific path is the parameter \<open>subpath\<close>. The type's own encode options are
  used when it has them, the shared ones otherwise. Each call of a resolver or generator is
  logged (\<open>Invoke_resolveSourceImage\<close>, \<open>Invoke_generateImage\<close>), so that calls can be
  counted. The resolved pipeline is handed to every generator call as the value the
  resolver returned (the test's pipeline has a \<^verbatim>\<open>clone\<close>).
\<close>

record RunTypeOptions =
  sources :: "string list"
  encodeOptions :: "PngOptions option"

record GeneratedImage =
  outputPath :: string
  spec :: ResourcesImageConfig
  sourcePath :: string

text \<open>
  Modelled from the spec: the output file layout, a directory and a name below it joined
  by a slash.
\<close>

definition path_join :: "string \<Rightarrow> string \<Rightarrow> string" where
  "path_join dir file = dir @ ''/'' @ file"

text \<open>Modelled from the spec: \<^verbatim>\<open>ensureDir(path)\<close> of the file-system collaborator.\<close>

definition ensureDir :: "collaborators \<Rightarrow> string \<Rightarrow> world \<Rightarrow> (js_error + unit) \<times> world" where
  "ensureDir env path w =
     (case fs_ensureDir_error env path of
        Some e \<Rightarrow> (Inl e, log_event (FsEnsureDir path) w)
      | None \<Rightarrow> (Inr (), log_event (FsEnsureDir path) w))"

text \<open>
  Modelled from the spec: step 3 and 4 of the Platform Runner for one resource type, the
  ImageSpecs in catalog order.
\<close>

fun generate_specs ::
  "collaborators \<Rightarrow> string \<Rightarrow> string \<Rightarrow> Sharp \<Rightarrow> PngOptions option \<Rightarrow> ResourcesImageConfig list \<Rightarrow> world
    \<Rightarrow> (js_error + GeneratedImage list) \<times> world" where
  "generate_specs env dir srcPath src options [] w = (Inr [], w)"
| "generate_specs env dir srcPath src options (s # rest) w =
     (let dest = path_join dir (name s) in
      case generateImage env s src dest options
             (log_event (Invoke_generateImage (ImageSchema.truncate s) dest) w) of
        (Inl e, w1) \<Rightarrow> (Inl e, w1)
      | (Inr u, w1) \<Rightarrow>
          (case generate_specs env dir srcPath src options rest w1 of
             (Inl e, w2) \<Rightarrow> (Inl e, w2)
           | (Inr generated, w2) \<Rightarrow>
               (Inr (\<lparr>outputPath = dest, spec = s, sourcePath = srcPath\<rparr> # generated), w2)))"

text \<open>Modelled from the spec: steps 1 to 4 of the Platform Runner for one resource type.\<close>

definition run_type ::
  "collaborators \<Rightarrow> (Platform \<Rightarrow> ResourceType \<Rightarrow> string) \<Rightarrow> Platform \<Rightarrow> string
    \<Rightarrow> ResourceType \<Rightarrow> RunTypeOptions \<Rightarrow> PngOptions option \<Rightarrow> world
    \<Rightarrow> (js_error + GeneratedImage list) \<times> world" where
  "run_type env subpath platform root t opts shared w =
     (let dir = path_join root (subpath platform t) in
      case ensureDir env dir w of
        (Inl e, w1) \<Rightarrow> (Inl e, w1)
      | (Inr u, w1) \<Rightarrow>
          (case resolveSourceImage env t (sources opts) None
                  (log_event (Invoke_resolveSourceImage t (sources opts)) w1) of
             (Inl e, w2) \<Rightarrow> (Inl e, w2)
           | (Inr (srcPath, src), w2) \<Rightarrow>
               generate_specs env dir srcPath src
                 (case encodeOptions opts of Some own \<Rightarrow> Some own | None \<Rightarrow> shared)
                 (images (RESOURCES platform t)) w2))"

text \<open>Modelled from the spec: the Platform Runner over the requested types, in order.\<close>

fun run ::
  "collaborators \<Rightarrow> (Platform \<Rightarrow> ResourceType \<Rightarrow> string) \<Rightarrow> Platform \<Rightarrow> string
    \<Rightarrow> (ResourceType \<times> RunTypeOptions) list \<Rightarrow> PngOptions option \<Rightarrow> world
    \<Rightarrow> (js_error + GeneratedImage list) \<times> world" where
  "run env subpath platform root [] shared w = (Inr [], w)"
| "run env subpath platform root ((t, opts) # requested) shared w =
     (case run_type env subpath platform root t opts shared w of
        (Inl e, w1) \<Rightarrow> (Inl e, w1)
      | (Inr generated, w1) \<Rightarrow>
          (case run env subpath platform root requested shared w1 of
             (Inl e, w2) \<Rightarrow> (Inl e, w2)
           | (Inr others, w2) \<Rightarrow> (Inr (generated @ others), w2)))"

section \<open>An example environment\<close>

text \<open>
  Concrete collaborators for the examples below. A buffer \<open>[f, w, h]\<close> stands for an
  image of format png (\<open>f = 0\<close>) or jpeg, \<open>w\<close> wide and \<open>h\<close> high; any other buffer
  does not decode. Encoding a resized pipeline gives the png buffer of the target size.
\<close>

fun example_metadata :: "Buffer \<Rightarrow> js_error + Metadata" where
  "example_metadata [f, w, h] =
     Inr \<lparr>md_format = Some (if f = 0 then ''png'' else ''jpeg''),
          md_width = Some (int w), md_height = Some (int h)\<rparr>"
| "example_metadata buf = Inl (Error ''Input buffer contains unsupported image format'')"

definition example_toBuffer :: "Sharp \<Rightarrow> js_error + Buffer" where
  "example_toBuffer pipeline =
     (case example_metadata (input pipeline) of
        Inl e \<Rightarrow> Inl e
      | Inr md \<Rightarrow>
          (case resize_to pipeline of
             None \<Rightarrow> Inr (input pipeline)
           | Some (w, h) \<Rightarrow> Inr [0, nat w, nat h]))"

fun example_format_error :: "js_error \<Rightarrow> string" where
  "example_format_error (Error m) = ''Error: '' @ m"
| "example_format_error (ValidationErr v) = ''ValidationError: '' @ message v"
| "example_format_error (ResolveSourceImageError m es) = ''ResolveSourceImageError: '' @ m"

definition example_env :: collaborators where
  "example_env = \<lparr>
     fs_readFile_error = (\<lambda>path. Error (''ENOENT: no such file or directory, open '' @ path)),
     sharp_metadata = example_metadata,
     sharp_toBuffer = example_toBuffer,
     fs_writeFile_error = (\<lambda>path. None),
     fs_ensureDir_error = (\<lambda>path. None),
     util_format_error = example_format_error\<rparr>"

definition example_files :: "string \<rightharpoonup> Buffer" where
  "example_files = [
     ''a.jpg'' \<mapsto> [1, 1024, 1024],
     ''b.png'' \<mapsto> [0, 1024, 1024],
     ''c.png'' \<mapsto> [0, 2048, 2048],
     ''small.png'' \<mapsto> [0, 1024, 1023],
     ''corrupt.png'' \<mapsto> [7]]"

definition example_world :: world where
  "example_world = \<lparr>files = example_files, events = []\<rparr>"

section \<open>Notions used in the statements\<close>

text \<open>
  The verdict of a validator on a pipeline and the outcome of the \<^verbatim>\<open>try\<close> block on a
  candidate: the results of \<open>RESOURCE_VALIDATORS\<close> and \<open>try_source\<close>, which depend on
  the files and not on the log (lemmas \<open>validator_eq\<close> and \<open>try_source_eq\<close>).
\<close>

definition verdict :: "collaborators \<Rightarrow> ResourceType \<Rightarrow> string \<Rightarrow> Sharp \<Rightarrow> js_error + unit" where
  "verdict env t source pipeline =
     fst (RESOURCE_VALIDATORS env t source pipeline \<lparr>files = Map.empty, events = []\<rparr>)"

definition outcome ::
  "collaborators \<Rightarrow> ResourceType \<Rightarrow> (string \<rightharpoonup> Buffer) \<Rightarrow> string \<Rightarrow> js_error + string \<times> Sharp" where
  "outcome env t fs source = fst (try_source env t source \<lparr>files = fs, events = []\<rparr>)"

text \<open>The error the \<^verbatim>\<open>catch\<close> block receives for a candidate that fails.\<close>

definition failure :: "collaborators \<Rightarrow> ResourceType \<Rightarrow> (string \<rightharpoonup> Buffer) \<Rightarrow> string \<Rightarrow> js_error" where
  "failure env t fs source = projl (outcome env t fs source)"

text \<open>What trying one candidate logs: the read, and the decoding if the read succeeded.\<close>

definition source_events :: "(string \<rightharpoonup> Buffer) \<Rightarrow> string \<Rightarrow> event list" where
  "source_events fs source =
     FsReadFile source # (case fs source of None \<Rightarrow> [] | Some buf \<Rightarrow> [SharpMetadata (sharp buf)])"

text \<open>The events a call added to the log.\<close>

definition new_events :: "world \<Rightarrow> world \<Rightarrow> event list" where
  "new_events w w' = drop (length (events w)) (events w')"

fun stream_writes :: "event list \<Rightarrow> (WritableStream \<times> string) list" where
  "stream_writes [] = []"
| "stream_writes (StreamWrite stream line # es) = (stream, line) # stream_writes es"
| "stream_writes (e # es) = stream_writes es"

fun file_writes :: "event list \<Rightarrow> (string \<times> Buffer) list" where
  "file_writes [] = []"
| "file_writes (FsWriteFile path buf # es) = (path, buf) # file_writes es"
| "file_writes (e # es) = file_writes es"

fun resolver_calls :: "event list \<Rightarrow> nat" where
  "resolver_calls [] = 0"
| "resolver_calls (Invoke_resolveSourceImage t srcs # es) = Suc (resolver_calls es)"
| "resolver_calls (e # es) = resolver_calls es"

fun generator_calls :: "event list \<Rightarrow> nat" where
  "generator_calls [] = 0"
| "generator_calls (Invoke_generateImage s dest # es) = Suc (generator_calls es)"
| "generator_calls (e # es) = generator_calls es"

text \<open>The list a \<^verbatim>\<open>ResolveSourceImageError\<close> carries.\<close>

fun carried_errors :: "js_error + 'a \<Rightarrow> js_error list" where
  "carried_errors (Inl (ResolveSourceImageError m es)) = es"
| "carried_errors r = []"

text \<open>The pipeline whose buffer \<open>generateImage\<close> awaits and writes.\<close>

definition encoded_pipeline :: "'a ImageSchema_scheme \<Rightarrow> Sharp \<Rightarrow> PngOptions option \<Rightarrow> Sharp" where
  "encoded_pipeline image' src options =
     (case options of
        Some opts \<Rightarrow> png opts (transformImage image' src options)
      | None \<Rightarrow> transformImage image' src options)"

text \<open>The files after a list of writes, made in order.\<close>

fun store_all :: "(string \<times> Buffer) list \<Rightarrow> (string \<rightharpoonup> Buffer) \<Rightarrow> (string \<rightharpoonup> Buffer)" where
  "store_all [] fs = fs"
| "store_all ((path, buf) # ws) fs = store_all ws (fs(path \<mapsto> buf))"

text \<open>The paths of all candidate sources of a request.\<close>

definition candidate_paths :: "(ResourceType \<times> RunTypeOptions) list \<Rightarrow> string set" where
  "candidate_paths requested = set (concat (map (\<lambda>(t, opts). sources opts) requested))"

text \<open>
  Two executions, started in the worlds \<open>a\<close> and \<open>b\<close>, are in step in the worlds \<open>w1\<close> and
  \<open>w2\<close>: they have logged the same events since they started, and the files at the paths
  of \<open>S\<close> are the same.
\<close>

definition in_step :: "string set \<Rightarrow> world \<Rightarrow> world \<Rightarrow> world \<Rightarrow> world \<Rightarrow> bool" where
  "in_step S a b w1 w2 \<longleftrightarrow>
     (\<forall>p\<in>S. files w1 p = files w2 p)
     \<and> (\<exists>es. events w1 = events a @ es \<and> events w2 = events b @ es)"

text \<open>
  Two results of the generation are alike: the same value, the two worlds in step, and on
  success also the generated output files the same.
\<close>

definition alike ::
  "string set \<Rightarrow> world \<Rightarrow> world \<Rightarrow> (js_error + GeneratedImage list) \<times> world
    \<Rightarrow> (js_error + GeneratedImage list) \<times> world \<Rightarrow> bool" where
  "alike S a b r1 r2 \<longleftrightarrow>
     fst r1 = fst r2
     \<and> in_step S a b (snd r1) (snd r2)
     \<and> (\<forall>generated. fst r1 = Inr generated \<longrightarrow>
          in_step (S \<union> outputPath ` set generated) a b (snd r1) (snd r2))"

fun example_subpath :: "Platform \<Rightarrow> ResourceType \<Rightarrow> string" where
  "example_subpath ANDROID ICON = ''android/icon''"
| "example_subpath ANDROID SPLASH = ''android/splash''"
| "example_subpath IOS ICON = ''ios/icon''"
| "example_subpath IOS SPLASH = ''ios/splash''"

text \<open>A world with an older output file and an older log.\<close>

definition example_world_later :: world where
  "example_world_later = \<lparr>
     files = example_files(''resources/android/icon/drawable-ldpi-icon.png'' \<mapsto> [0, 1, 1]),
     events = [FsEnsureDir ''resources/android/icon'']\<rparr>"

section \<open>The validators\<close>

lemma validator_eq:
  "RESOURCE_VALIDATORS env t source pipeline w =
     (verdict env t source pipeline, log_event (SharpMetadata pipeline) w)"
  by (cases t) (simp_all add: verdict_def metadata_def split: sum.splits)

text \<open>
  C1. For each resource type, the width and height its validator requires are the largest
  width and the largest height among the catalog's images of that type, over both
  platforms (1024 by 1024 for icons, 2732 by 2732 for splash screens).
\<close>

theorem catalog_required_dimensions:
  "requiredWidth t = Max (set (map width (catalog_images t)))
   \<and> requiredHeight t = Max (set (map height (catalog_images t)))
   \<and> requiredWidth ICON = 1024 \<and> requiredHeight ICON = 1024
   \<and> requiredWidth SPLASH = 2732 \<and> requiredHeight SPLASH = 2732"
  by (cases t) (simp_all add: catalog_images_def img_def)

text \<open>
  C5. The icon validator rejects a png of 1024 by 1023 with a size failure, accepts a png
  of 1024 by 1024, and rejects a jpeg of 1024 by 1024 with a format failure that records
  the format jpeg against the required png.
\<close>

theorem icon_validator_examples:
  assumes "sharp_metadata env (input p1) =
             Inr \<lparr>md_format = Some ''png'', md_width = Some 1024, md_height = Some 1023\<rparr>"
    and "sharp_metadata env (input p2) =
             Inr \<lparr>md_format = Some ''png'', md_width = Some 1024, md_height = Some 1024\<rparr>"
    and "sharp_metadata env (input p3) =
             Inr \<lparr>md_format = Some ''jpeg'', md_width = Some 1024, md_height = Some 1024\<rparr>"
  shows "failure_details (fst (RESOURCE_VALIDATORS env ICON source p1 w)) =
           Some \<lparr>err_source = source, err_type = ICON, err_code = BAD_IMAGE_SIZE,
                 err_format = None, err_requiredFormat = None,
                 err_width = Some 1024, err_height = Some 1023,
                 err_requiredWidth = Some 1024, err_requiredHeight = Some 1024\<rparr>
       \<and> fst (RESOURCE_VALIDATORS env ICON source p2 w) = Inr ()
       \<and> failure_details (fst (RESOURCE_VALIDATORS env ICON source p3 w)) =
           Some \<lparr>err_source = source, err_type = ICON, err_code = BAD_IMAGE_FORMAT,
                 err_format = Some ''jpeg'', err_requiredFormat = Some ''png'',
                 err_width = None, err_height = None,
                 err_requiredWidth = None, err_requiredHeight = None\<rparr>"
  using assms by (simp add: metadata_def)

theorem icon_validator_examples_witness:
  "failure_details (fst (RESOURCE_VALIDATORS example_env ICON ''icon.png'' (sharp [0, 1024, 1023]) example_world)) =
     Some \<lparr>err_source = ''icon.png'', err_type = ICON, err_code = BAD_IMAGE_SIZE,
           err_format = None, err_requiredFormat = None,
           err_width = Some 1024, err_height = Some 1023,
           err_requiredWidth = Some 1024, err_requiredHeight = Some 1024\<rparr>
   \<and> fst (RESOURCE_VALIDATORS example_env ICON ''icon.png'' (sharp [0, 1024, 1024]) example_world) = Inr ()
   \<and> failure_details (fst (RESOURCE_VALIDATORS example_env ICON ''icon.png'' (sharp [1, 1024, 1024]) example_world)) =
     Some \<lparr>err_source = ''icon.png'', err_type = ICON, err_code = BAD_IMAGE_FORMAT,
           err_format = Some ''jpeg'', err_requiredFormat = Some ''png'',
           err_width = None, err_height = None,
           err_requiredWidth = None, err_requiredHeight = None\<rparr>"
proof -
  have m1: "sharp_metadata example_env (input (sharp [0, 1024, 1023])) =
      Inr \<lparr>md_format = Some ''png'', md_width = Some 1024, md_height = Some 1023\<rparr>"
    by (simp add: example_env_def sharp_def)
  have m2: "sharp_metadata example_env (input (sharp [0, 1024, 1024])) =
      Inr \<lparr>md_format = Some ''png'', md_width = Some 1024, md_height = Some 1024\<rparr>"
    by (simp add: example_env_def sharp_def)
  have m3: "sharp_metadata example_env (input (sharp [1, 1024, 1024])) =
      Inr \<lparr>md_format = Some ''jpeg'', md_width = Some 1024, md_height = Some 1024\<rparr>"
    by (simp add: example_env_def sharp_def)
  show ?thesis
    by (rule icon_validator_examples [OF m1 m2 m3])
qed

text \<open>
  C6. For a source whose decoded format is png, a validator raises a size failure exactly
  when the width or the height is undefined or zero, or one of them is below the minimum
  its type requires; otherwise it succeeds, so a source at or above the minimum in both
  dimensions is never rejected.
\<close>

theorem validator_bad_size_iff:
  assumes "sharp_metadata env (input pipeline) = Inr md"
    and "md_format md = Some ''png''"
  shows "(failure_code (fst (RESOURCE_VALIDATORS env t source pipeline w)) = Some BAD_IMAGE_SIZE
          \<longleftrightarrow> (md_width md = None \<or> md_width md = Some 0
               \<or> md_height md = None \<or> md_height md = Some 0
               \<or> (\<exists>n. md_width md = Some n \<and> n < requiredWidth t)
               \<or> (\<exists>n. md_height md = Some n \<and> n < requiredHeight t)))
       \<and> (failure_code (fst (RESOURCE_VALIDATORS env t source pipeline w)) \<noteq> Some BAD_IMAGE_SIZE
            \<longrightarrow> fst (RESOURCE_VALIDATORS env t source pipeline w) = Inr ())
       \<and> (\<forall>n m. md_width md = Some n \<and> md_height md = Some m
              \<and> requiredWidth t \<le> n \<and> requiredHeight t \<le> m
            \<longrightarrow> fst (RESOURCE_VALIDATORS env t source pipeline w) = Inr ())"
  using assms
  by (cases t; cases "md_width md"; cases "md_height md") (auto simp: metadata_def)

theorem validator_bad_size_iff_witness:
  "failure_code (fst (RESOURCE_VALIDATORS example_env SPLASH ''splash.png'' (sharp [0, 2732, 2731]) example_world))
     = Some BAD_IMAGE_SIZE
   \<and> fst (RESOURCE_VALIDATORS example_env SPLASH ''splash.png'' (sharp [0, 4000, 3000]) example_world) = Inr ()"
proof -
  have m1: "sharp_metadata example_env (input (sharp [0, 2732, 2731])) =
      Inr \<lparr>md_format = Some ''png'', md_width = Some 2732, md_height = Some 2731\<rparr>"
    by (simp add: example_env_def sharp_def)
  have m2: "sharp_metadata example_env (input (sharp [0, 4000, 3000])) =
      Inr \<lparr>md_format = Some ''png'', md_width = Some 4000, md_height = Some 3000\<rparr>"
    by (simp add: example_env_def sharp_def)
  have a: "failure_code (fst (RESOURCE_VALIDATORS example_env SPLASH ''splash.png'' (sharp [0, 2732, 2731]) example_world))
     = Some BAD_IMAGE_SIZE"
    using validator_bad_size_iff [OF m1, of SPLASH "''splash.png''" example_world] by simp
  have b: "fst (RESOURCE_VALIDATORS example_env SPLASH ''splash.png'' (sharp [0, 4000, 3000]) example_world) = Inr ()"
    using validator_bad_size_iff [OF m2, of SPLASH "''splash.png''" example_world] by simp
  show ?thesis using a b by simp
qed

text \<open>
  C10. The format check comes first: when the decoded format is not png, a validator
  raises a format failure whatever the width and the height are.
\<close>

theorem validator_format_first:
  assumes "sharp_metadata env (input pipeline) = Inr md"
    and "md_format md \<noteq> Some ''png''"
  shows "failure_code (fst (RESOURCE_VALIDATORS env t source pipeline w)) = Some BAD_IMAGE_FORMAT"
  using assms by (cases t) (auto simp: metadata_def)

theorem validator_format_first_witness:
  "failure_code (fst (RESOURCE_VALIDATORS example_env SPLASH ''tiny.jpg'' (sharp [1, 10, 0]) example_world))
     = Some BAD_IMAGE_FORMAT"
proof -
  have m: "sharp_metadata example_env (input (sharp [1, 10, 0])) =
      Inr \<lparr>md_format = Some ''jpeg'', md_width = Some 10, md_height = Some 0\<rparr>"
    by (simp add: example_env_def sharp_def)
  show ?thesis
    using validator_format_first [OF m, of SPLASH "''tiny.jpg''" example_world] by simp
qed

section \<open>Source resolution\<close>

lemma new_events_append [simp]: "new_events w (w'\<lparr>events := events w @ es\<rparr>) = es"
  by (simp add: new_events_def)

lemma try_source_eq:
  "try_source env t source w =
     (outcome env t (files w) source,
      w\<lparr>events := events w @ source_events (files w) source\<rparr>)"
  by (simp add: outcome_def try_source_def readFile_def source_events_def validator_eq
      log_event_def Let_def split: option.splits sum.splits)

lemma outcome_source: "outcome env t fs source = Inr found \<Longrightarrow> fst found = source"
  by (auto simp: outcome_def try_source_def readFile_def validator_eq Let_def
      split: option.splits sum.splits)

text \<open>
  The loop in closed form: the candidates up to the first one that passes are tried, each
  failure is pushed, and nothing is done with the candidates after it.
\<close>

lemma resolve_loop_eq:
  "resolve_loop env t srcs errors w =
     (let failing = takeWhile (\<lambda>s. isl (outcome env t (files w) s)) srcs;
          rest = dropWhile (\<lambda>s. isl (outcome env t (files w) s)) srcs
      in ((case rest of [] \<Rightarrow> None | s # _ \<Rightarrow> Some (projr (outcome env t (files w) s)),
           errors @ map (\<lambda>s. (s, failure env t (files w) s)) failing),
          w\<lparr>events := events w @ concat (map (source_events (files w)) (failing @ take 1 rest))\<rparr>))"
proof (induction srcs arbitrary: errors w)
  case Nil
  then show ?case by simp
next
  case (Cons s srcs)
  show ?case
  proof (cases "outcome env t (files w) s")
    case (Inl e)
    then show ?thesis
      by (simp add: try_source_eq Cons.IH Let_def failure_def cong: list.case_cong)
  next
    case (Inr r)
    then show ?thesis by (simp add: try_source_eq)
  qed
qed

lemma write_warnings_eq:
  "write_warnings env stream errors w =
     w\<lparr>events := events w @ map (\<lambda>(s, e). StreamWrite stream (warning_line env s e)) errors\<rparr>"
  by (induction errors arbitrary: w) (auto simp: log_event_def)

lemma stream_writes_append: "stream_writes (xs @ ys) = stream_writes xs @ stream_writes ys"
  by (induction xs rule: stream_writes.induct) simp_all

lemma stream_writes_source_events: "stream_writes (concat (map (source_events fs) srcs)) = []"
  by (induction srcs) (simp_all add: source_events_def stream_writes_append split: option.splits)

lemma stream_writes_warnings:
  "stream_writes (map (\<lambda>(s, e). StreamWrite stream (warning_line env s e)) errors) =
     map (\<lambda>(s, e). (stream, warning_line env s e)) errors"
  by (induction errors) auto

lemma resolve_all_fail:
  assumes "\<forall>s\<in>set srcs. isl (outcome env t (files w) s)"
  shows "resolveSourceImage env t srcs errstream w =
     (Inl (ResolveSourceImageError
        (''Could not find suitable source image. Looked at: '' @ join '', '' srcs)
        (filter instanceof_ValidationError (map (failure env t (files w)) srcs))),
      w\<lparr>events := events w @ concat (map (source_events (files w)) srcs)
          @ (case errstream of
               None \<Rightarrow> []
             | Some stream \<Rightarrow>
                 map (\<lambda>s. StreamWrite stream (warning_line env s (failure env t (files w) s))) srcs)\<rparr>)"
proof -
  have tw: "takeWhile (\<lambda>s. isl (outcome env t (files w) s)) srcs = srcs"
    using assms by simp
  have dw: "dropWhile (\<lambda>s. isl (outcome env t (files w) s)) srcs = []"
    using assms by simp
  show ?thesis
    by (simp add: resolveSourceImage_def resolve_loop_eq tw dw write_warnings_eq comp_def
        split: option.splits)
qed

lemma resolve_first_pass:
  assumes "\<forall>s\<in>set failing. isl (outcome env t (files w) s)"
    and "outcome env t (files w) source = Inr found"
  shows "resolveSourceImage env t (failing @ source # later) errstream w =
     (Inr found, w\<lparr>events := events w @ concat (map (source_events (files w)) (failing @ [source]))\<rparr>)"
proof -
  have p: "\<not> isl (outcome env t (files w) source)"
    using assms(2) by simp
  have tw: "takeWhile (\<lambda>s. isl (outcome env t (files w) s)) (failing @ source # later) = failing"
    using assms(1) p by (simp add: takeWhile_tail)
  have dw: "dropWhile (\<lambda>s. isl (outcome env t (files w) s)) (failing @ source # later) = source # later"
    using assms(1) p by (simp add: dropWhile_append3)
  show ?thesis
    by (simp add: resolveSourceImage_def resolve_loop_eq tw dw assms(2))
qed

lemma read_source_events:
  "FsReadFile c \<in> set (concat (map (source_events fs) srcs)) \<Longrightarrow> c \<in> set srcs"
  by (induction srcs) (auto simp: source_events_def split: option.splits)

text \<open>
  C2. Whatever the resource type and the list of candidates, when a candidate passes and
  every candidate before it fails, the resolver returns that candidate with its pipeline,
  and the reads and decodings it makes are those of the candidates up to that one, in
  order: no candidate after it is read or decoded, even one that would pass.
\<close>

theorem resolveSourceImage_first_viable:
  assumes "srcs = failing @ source # later"
    and "\<forall>s\<in>set failing. isl (outcome env t (files w) s)"
    and "outcome env t (files w) source = Inr found"
  shows "fst (resolveSourceImage env t srcs errstream w) = Inr found
       \<and> fst found = source
       \<and> new_events w (snd (resolveSourceImage env t srcs errstream w)) =
           concat (map (source_events (files w)) (failing @ [source]))
       \<and> (\<forall>c. c \<notin> set (failing @ [source]) \<longrightarrow>
            FsReadFile c \<notin> set (new_events w (snd (resolveSourceImage env t srcs errstream w))))
       \<and> files (snd (resolveSourceImage env t srcs errstream w)) = files w"
proof -
  have r: "resolveSourceImage env t srcs errstream w =
      (Inr found, w\<lparr>events := events w @ concat (map (source_events (files w)) (failing @ [source]))\<rparr>)"
    unfolding assms(1) by (rule resolve_first_pass [OF assms(2,3)])
  have unread: "\<forall>c. c \<notin> set (failing @ [source]) \<longrightarrow>
      FsReadFile c \<notin> set (concat (map (source_events (files w)) (failing @ [source])))"
    using read_source_events [of _ "files w" "failing @ [source]"] by blast
  show ?thesis
    using unread outcome_source [OF assms(3)] by (simp add: r)
qed

lemma example_outcomes:
  "outcome example_env ICON example_files ''a.jpg'' = Inl (failure example_env ICON example_files ''a.jpg'')"
  "outcome example_env ICON example_files ''b.png'' = Inr (''b.png'', sharp [0, 1024, 1024])"
  "outcome example_env ICON example_files ''c.png'' = Inr (''c.png'', sharp [0, 2048, 2048])"
  "outcome example_env ICON example_files ''missing.png'' =
     Inl (Error ''ENOENT: no such file or directory, open missing.png'')"
  "outcome example_env ICON example_files ''corrupt.png'' =
     Inl (Error ''Input buffer contains unsupported image format'')"
  "outcome example_env ICON example_files ''small.png'' = Inl (failure example_env ICON example_files ''small.png'')"
  "instanceof_ValidationError (failure example_env ICON example_files ''small.png'')"
  "instanceof_ValidationError (failure example_env ICON example_files ''a.jpg'')"
  by (simp_all add: outcome_def failure_def try_source_def readFile_def example_files_def
      example_env_def metadata_def sharp_def log_event_def Let_def)

lemma example_source_events:
  "source_events example_files ''a.jpg'' = [FsReadFile ''a.jpg'', SharpMetadata (sharp [1, 1024, 1024])]"
  "source_events example_files ''b.png'' = [FsReadFile ''b.png'', SharpMetadata (sharp [0, 1024, 1024])]"
  "source_events example_files ''missing.png'' = [FsReadFile ''missing.png'']"
  "source_events example_files ''corrupt.png'' = [FsReadFile ''corrupt.png'', SharpMetadata (sharp [7])]"
  "source_events example_files ''small.png'' = [FsReadFile ''small.png'', SharpMetadata (sharp [0, 1024, 1023])]"
  by (simp_all add: source_events_def example_files_def)

theorem resolveSourceImage_first_viable_witness:
  "isl (outcome example_env ICON (files example_world) ''a.jpg'')
   \<and> outcome example_env ICON (files example_world) ''b.png'' = Inr (''b.png'', sharp [0, 1024, 1024])
   \<and> outcome example_env ICON (files example_world) ''c.png'' = Inr (''c.png'', sharp [0, 2048, 2048])
   \<and> fst (resolveSourceImage example_env ICON [''a.jpg'', ''b.png'', ''c.png''] None example_world)
       = Inr (''b.png'', sharp [0, 1024, 1024])
   \<and> new_events example_world
        (snd (resolveSourceImage example_env ICON [''a.jpg'', ''b.png'', ''c.png''] None example_world))
       = [FsReadFile ''a.jpg'', SharpMetadata (sharp [1, 1024, 1024]),
          FsReadFile ''b.png'', SharpMetadata (sharp [0, 1024, 1024])]
   \<and> FsReadFile ''c.png'' \<notin> set (new_events example_world
        (snd (resolveSourceImage example_env ICON [''a.jpg'', ''b.png'', ''c.png''] None example_world)))"
proof -
  have fs: "files example_world = example_files"
    by (simp add: example_world_def)
  have l: "[''a.jpg'', ''b.png'', ''c.png''] = [''a.jpg''] @ ''b.png'' # [''c.png'']"
    by simp
  have f: "\<forall>s\<in>set [''a.jpg'']. isl (outcome example_env ICON (files example_world) s)"
    by (simp add: fs example_outcomes)
  have p: "outcome example_env ICON (files example_world) ''b.png'' = Inr (''b.png'', sharp [0, 1024, 1024])"
    by (simp add: fs example_outcomes)
  show ?thesis
    using resolveSourceImage_first_viable [OF l f p, of None]
    by (simp add: fs example_outcomes example_source_events)
qed

lemma candidates_cases:
  obtains (all_fail) "\<forall>s\<in>set srcs. isl (outcome env t fs s)"
  | (first_pass) failing source later found where
      "srcs = failing @ source # later"
      "\<forall>s\<in>set failing. isl (outcome env t fs s)"
      "outcome env t fs source = Inr found"
proof (cases "dropWhile (\<lambda>s. isl (outcome env t fs s)) srcs")
  case Nil
  then have "\<forall>s\<in>set srcs. isl (outcome env t fs s)"
    by simp
  then show ?thesis by (rule all_fail)
next
  case (Cons source later)
  let ?failing = "takeWhile (\<lambda>s. isl (outcome env t fs s)) srcs"
  have split: "srcs = ?failing @ source # later"
    using takeWhile_dropWhile_id [of "\<lambda>s. isl (outcome env t fs s)" srcs] Cons by simp
  have fails: "\<forall>s\<in>set ?failing. isl (outcome env t fs s)"
    by (auto dest: set_takeWhileD)
  have "\<not> isl (outcome env t fs source)"
    using hd_dropWhile [of "\<lambda>s. isl (outcome env t fs s)" srcs] Cons by simp
  then obtain found where "outcome env t fs source = Inr found"
    by (cases "outcome env t fs source") auto
  with split fails show ?thesis by (rule first_pass)
qed

text \<open>
  The list the error carries when every candidate fails, whatever the failures are: the
  failures that are \<^verbatim>\<open>ValidationError\<close>s, in candidate order (the \<^verbatim>\<open>filter\<close> of line 39).
\<close>

lemma no_viable_source_carried:
  assumes "\<forall>s\<in>set srcs. isl (outcome env t (files w) s)"
  shows "fst (resolveSourceImage env t srcs errstream w) =
           Inl (ResolveSourceImageError
             (''Could not find suitable source image. Looked at: '' @ join '', '' srcs)
             (filter instanceof_ValidationError (map (failure env t (files w)) srcs)))"
  using resolve_all_fail [OF assms, of errstream] by simp

text \<open>
  C3. When every candidate fails validation, that is, the \<^verbatim>\<open>try\<close> block of every
  candidate ends in a \<^verbatim>\<open>ValidationError\<close> (also when there is no candidate), the
  resolver raises a \<^verbatim>\<open>ResolveSourceImageError\<close> whose list is as long as the list of
  candidates and holds the candidates' failures in candidate order: the failure at each
  position is the \<^verbatim>\<open>ValidationError\<close> of the candidate at that position.
\<close>

theorem resolveSourceImage_no_viable_source:
  assumes "\<forall>s\<in>set srcs. \<exists>v. outcome env t (files w) s = Inl (ValidationErr v)"
  shows "fst (resolveSourceImage env t srcs errstream w) =
           Inl (ResolveSourceImageError
             (''Could not find suitable source image. Looked at: '' @ join '', '' srcs)
             (map (failure env t (files w)) srcs))
       \<and> length (carried_errors (fst (resolveSourceImage env t srcs errstream w))) = length srcs
       \<and> carried_errors (fst (resolveSourceImage env t srcs errstream w)) =
           map (failure env t (files w)) srcs
       \<and> list_all instanceof_ValidationError
           (carried_errors (fst (resolveSourceImage env t srcs errstream w)))"
proof -
  have fails: "\<forall>s\<in>set srcs. isl (outcome env t (files w) s)"
    using assms by auto
  have val: "\<forall>s\<in>set srcs. instanceof_ValidationError (failure env t (files w) s)"
    using assms by (auto simp: failure_def)
  have keep: "filter instanceof_ValidationError (map (failure env t (files w)) srcs) =
      map (failure env t (files w)) srcs"
    using val by simp
  have allv: "list_all instanceof_ValidationError (map (failure env t (files w)) srcs)"
    using val by (simp add: list_all_iff)
  show ?thesis
    using allv by (simp add: no_viable_source_carried [OF fails] keep)
qed

lemma example_validation_failures:
  "\<exists>v. outcome example_env ICON example_files ''small.png'' = Inl (ValidationErr v)"
  "\<exists>v. outcome example_env ICON example_files ''a.jpg'' = Inl (ValidationErr v)"
  "failure_code (Inl (failure example_env ICON example_files ''small.png'') :: js_error + unit)
     = Some BAD_IMAGE_SIZE"
  "failure_code (Inl (failure example_env ICON example_files ''a.jpg'') :: js_error + unit)
     = Some BAD_IMAGE_FORMAT"
  by (simp_all add: outcome_def failure_def try_source_def readFile_def example_files_def
      example_env_def metadata_def sharp_def log_event_def Let_def)

theorem resolveSourceImage_no_viable_source_witness:
  "failure_code (Inl (failure example_env ICON (files example_world) ''small.png'') :: js_error + unit)
     = Some BAD_IMAGE_SIZE
   \<and> failure_code (Inl (failure example_env ICON (files example_world) ''a.jpg'') :: js_error + unit)
     = Some BAD_IMAGE_FORMAT
   \<and> carried_errors (fst (resolveSourceImage example_env ICON [''small.png'', ''a.jpg''] None example_world))
       = [failure example_env ICON (files example_world) ''small.png'',
          failure example_env ICON (files example_world) ''a.jpg'']
   \<and> length (carried_errors
         (fst (resolveSourceImage example_env ICON [''small.png'', ''a.jpg''] None example_world))) = 2
   \<and> fst (resolveSourceImage example_env ICON [] None example_world)
       = Inl (ResolveSourceImageError ''Could not find suitable source image. Looked at: '' [])"
proof -
  have fs: "files example_world = example_files"
    by (simp add: example_world_def)
  have f: "\<forall>s\<in>set [''small.png'', ''a.jpg''].
      \<exists>v. outcome example_env ICON (files example_world) s = Inl (ValidationErr v)"
    by (simp add: fs example_validation_failures)
  have e: "\<forall>s\<in>set []. \<exists>v. outcome example_env ICON (files example_world) s = Inl (ValidationErr v)"
    by simp
  show ?thesis
    using resolveSourceImage_no_viable_source [OF f, of None]
      resolveSourceImage_no_viable_source [OF e, of None]
    by (simp add: fs example_validation_failures)
qed

text \<open>
  C4, as the code has it. With a diagnostic stream supplied, the resolver writes to it
  only after every candidate has failed: then one warning line per candidate, in candidate
  order, each with the candidate's failure. When a candidate passes, nothing is written,
  whatever failed before it.
\<close>

theorem resolveSourceImage_warnings:
  "(isl (fst (resolveSourceImage env t srcs (Some stream) w))
      \<longleftrightarrow> (\<forall>s\<in>set srcs. isl (outcome env t (files w) s)))
   \<and> stream_writes (new_events w (snd (resolveSourceImage env t srcs (Some stream) w))) =
       (case fst (resolveSourceImage env t srcs (Some stream) w) of
          Inl e \<Rightarrow> map (\<lambda>s. (stream, warning_line env s (failure env t (files w) s))) srcs
        | Inr found \<Rightarrow> [])"
proof (cases rule: candidates_cases [of srcs env t "files w"])
  case all_fail
  have sw: "stream_writes (map (\<lambda>s. StreamWrite stream (warning_line env s (failure env t (files w) s))) srcs)
      = map (\<lambda>s. (stream, warning_line env s (failure env t (files w) s))) srcs"
    by (induction srcs) simp_all
  show ?thesis
    using all_fail resolve_all_fail [OF all_fail, of "Some stream"]
    by (simp add: stream_writes_append stream_writes_source_events sw)
next
  case (first_pass failing source later found)
  have "\<not> (\<forall>s\<in>set srcs. isl (outcome env t (files w) s))"
    using first_pass(1,3) by auto
  then show ?thesis
    using resolve_first_pass [OF first_pass(2,3), of later "Some stream"] first_pass(1)
      stream_writes_source_events [of "files w" "failing @ [source]"]
    by simp
qed

theorem resolveSourceImage_warnings_witness:
  "isl (fst (resolveSourceImage example_env ICON [''missing.png'', ''corrupt.png'']
          (Some (WritableStream ''stderr'')) example_world))
   \<and> stream_writes (new_events example_world
        (snd (resolveSourceImage example_env ICON [''missing.png'', ''corrupt.png'']
          (Some (WritableStream ''stderr'')) example_world))) =
       [(WritableStream ''stderr'',
         ''WARN: Error with source file missing.png: Error: ENOENT: no such file or directory, open missing.png'' @ [CHR 0x0A]),
        (WritableStream ''stderr'',
         ''WARN: Error with source file corrupt.png: Error: Input buffer contains unsupported image format'' @ [CHR 0x0A])]"
proof -
  have fs: "files example_world = example_files"
    by (simp add: example_world_def)
  have fm: "failure example_env ICON example_files ''missing.png'' =
      Error ''ENOENT: no such file or directory, open missing.png''"
    by (simp add: failure_def example_outcomes)
  have fc: "failure example_env ICON example_files ''corrupt.png'' =
      Error ''Input buffer contains unsupported image format''"
    by (simp add: failure_def example_outcomes)
  have fmt: "util_format_error example_env = example_format_error"
    by (simp add: example_env_def)
  note th = resolveSourceImage_warnings [of example_env ICON "[''missing.png'', ''corrupt.png'']"
      "WritableStream ''stderr''" example_world]
  have failed: "isl (fst (resolveSourceImage example_env ICON [''missing.png'', ''corrupt.png'']
          (Some (WritableStream ''stderr'')) example_world))"
    using th by (simp add: fs example_outcomes)
  show ?thesis
    using th failed
    by (auto simp: fs fm fc fmt warning_line_def isl_def)
qed

text \<open>
  C4 as stated fails: the jpeg candidate fails, the next candidate passes, a stream is
  supplied, and nothing is written to it.
\<close>

theorem resolveSourceImage_warnings_counterexample:
  "isl (outcome example_env ICON (files example_world) ''a.jpg'')
   \<and> resolveSourceImage example_env ICON [''a.jpg'', ''b.png''] (Some (WritableStream ''stderr'')) example_world
     = (Inr (''b.png'', sharp [0, 1024, 1024]),
        example_world\<lparr>events :=
          [FsReadFile ''a.jpg'', SharpMetadata (sharp [1, 1024, 1024]),
           FsReadFile ''b.png'', SharpMetadata (sharp [0, 1024, 1024])]\<rparr>)
   \<and> stream_writes (events (snd (resolveSourceImage example_env ICON [''a.jpg'', ''b.png'']
        (Some (WritableStream ''stderr'')) example_world))) = []"
proof -
  have fs: "files example_world = example_files" and ev: "events example_world = []"
    by (simp_all add: example_world_def)
  have f: "\<forall>s\<in>set [''a.jpg'']. isl (outcome example_env ICON (files example_world) s)"
    by (simp add: fs example_outcomes)
  have p: "outcome example_env ICON (files example_world) ''b.png'' = Inr (''b.png'', sharp [0, 1024, 1024])"
    by (simp add: fs example_outcomes)
  show ?thesis
    using resolve_first_pass [OF f p, of "[]" "Some (WritableStream ''stderr'')"]
    by (simp add: fs ev example_outcomes example_source_events)
qed

section \<open>Image generation\<close>

lemma generateImage_eq:
  "generateImage env image' src dest options w =
     (case sharp_toBuffer env (encoded_pipeline image' src options) of
        Inl e \<Rightarrow>
          (Inl e, w\<lparr>events := events w @ [SharpToBuffer (encoded_pipeline image' src options)]\<rparr>)
      | Inr buf \<Rightarrow>
          (case fs_writeFile_error env dest of
             Some e \<Rightarrow>
               (Inl e, w\<lparr>events := events w @
                  [SharpToBuffer (encoded_pipeline image' src options), FsWriteFile dest buf]\<rparr>)
           | None \<Rightarrow>
               (Inr (), w\<lparr>files := (files w)(dest \<mapsto> buf),
                  events := events w @
                  [SharpToBuffer (encoded_pipeline image' src options), FsWriteFile dest buf]\<rparr>)))"
  by (simp add: generateImage_def encoded_pipeline_def toBuffer_def writeFile_def log_event_def
      Let_def split: option.splits sum.splits)

text \<open>
  C9. A call of \<open>generateImage\<close> whose encoding succeeds makes one file write, of the
  whole encoded buffer to the destination path, and when the file system accepts it the
  destination holds that buffer. A call whose encoding fails raises the encoder's error,
  makes no file write and leaves the files as they were.
\<close>

theorem generateImage_single_write:
  "(case sharp_toBuffer env (encoded_pipeline image' src options) of
      Inr buf \<Rightarrow>
        file_writes (new_events w (snd (generateImage env image' src dest options w))) = [(dest, buf)]
        \<and> (case fs_writeFile_error env dest of
             None \<Rightarrow>
               fst (generateImage env image' src dest options w) = Inr ()
               \<and> files (snd (generateImage env image' src dest options w)) = (files w)(dest \<mapsto> buf)
           | Some e \<Rightarrow> fst (generateImage env image' src dest options w) = Inl e)
    | Inl e \<Rightarrow>
        fst (generateImage env image' src dest options w) = Inl e
        \<and> file_writes (new_events w (snd (generateImage env image' src dest options w))) = []
        \<and> files (snd (generateImage env image' src dest options w)) = files w)"
  by (simp add: generateImage_eq split: sum.splits option.splits)

theorem generateImage_single_write_witness:
  "file_writes (new_events example_world
      (snd (generateImage example_env \<lparr>width = 36, height = 36\<rparr> (sharp [0, 1024, 1024])
              ''out/icon.png'' (Some [(''quality'', 80)]) example_world)))
     = [(''out/icon.png'', [0, 36, 36])]
   \<and> files (snd (generateImage example_env \<lparr>width = 36, height = 36\<rparr> (sharp [0, 1024, 1024])
              ''out/icon.png'' (Some [(''quality'', 80)]) example_world)) ''out/icon.png''
     = Some [0, 36, 36]
   \<and> fst (generateImage example_env \<lparr>width = 36, height = 36\<rparr> (sharp [7])
              ''out/icon.png'' None example_world)
     = Inl (Error ''Input buffer contains unsupported image format'')
   \<and> file_writes (new_events example_world
      (snd (generateImage example_env \<lparr>width = 36, height = 36\<rparr> (sharp [7])
              ''out/icon.png'' None example_world)))
     = []"
proof -
  have ok: "sharp_toBuffer example_env
      (encoded_pipeline \<lparr>width = 36, height = 36\<rparr> (sharp [0, 1024, 1024]) (Some [(''quality'', 80)]))
      = Inr [0, 36, 36]"
    by (simp add: example_env_def example_toBuffer_def encoded_pipeline_def transformImage_def
        resize_def png_def sharp_def)
  have bad: "sharp_toBuffer example_env
      (encoded_pipeline \<lparr>width = 36, height = 36\<rparr> (sharp [7]) None)
      = Inl (Error ''Input buffer contains unsupported image format'')"
    by (simp add: example_env_def example_toBuffer_def encoded_pipeline_def transformImage_def
        resize_def sharp_def)
  have wr: "fs_writeFile_error example_env ''out/icon.png'' = None"
    by (simp add: example_env_def)
  show ?thesis
    using generateImage_single_write [where env = example_env and image' = "\<lparr>width = 36, height = 36\<rparr>"
        and src = "sharp [0, 1024, 1024]" and options = "Some [(''quality'', 80)]"
        and w = example_world and dest = "''out/icon.png''"]
      generateImage_single_write [where env = example_env and image' = "\<lparr>width = 36, height = 36\<rparr>"
        and src = "sharp [7]" and options = None
        and w = example_world and dest = "''out/icon.png''"]
    by (simp add: ok bad wr)
qed

section \<open>The platform runner\<close>

lemma resolver_calls_append: "resolver_calls (xs @ ys) = resolver_calls xs + resolver_calls ys"
  by (induction xs rule: resolver_calls.induct) simp_all

lemma generator_calls_append: "generator_calls (xs @ ys) = generator_calls xs + generator_calls ys"
  by (induction xs rule: generator_calls.induct) simp_all

lemma resolver_calls_source_events: "resolver_calls (concat (map (source_events fs) srcs)) = 0"
  by (induction srcs) (simp_all add: source_events_def resolver_calls_append split: option.splits)

lemma generator_calls_source_events: "generator_calls (concat (map (source_events fs) srcs)) = 0"
  by (induction srcs) (simp_all add: source_events_def generator_calls_append split: option.splits)

text \<open>The generation of a list of specs when every encoding and every write succeeds.\<close>

lemma generate_specs_ok:
  assumes "\<forall>s\<in>set specs. sharp_toBuffer env (encoded_pipeline s src options) = Inr (enc s)"
    and "\<forall>s\<in>set specs. fs_writeFile_error env (path_join dir (name s)) = None"
  shows "generate_specs env dir srcPath src options specs w =
     (Inr (map (\<lambda>s. \<lparr>outputPath = path_join dir (name s), spec = s, sourcePath = srcPath\<rparr>) specs),
      w\<lparr>files := store_all (map (\<lambda>s. (path_join dir (name s), enc s)) specs) (files w),
        events := events w @ concat (map (\<lambda>s.
          [Invoke_generateImage (ImageSchema.truncate s) (path_join dir (name s)),
           SharpToBuffer (encoded_pipeline s src options),
           FsWriteFile (path_join dir (name s)) (enc s)]) specs)\<rparr>)"
  using assms
proof (induction specs arbitrary: w)
  case Nil
  then show ?case by simp
next
  case (Cons s specs)
  have enc: "sharp_toBuffer env (encoded_pipeline s src options) = Inr (enc s)"
    and wr: "fs_writeFile_error env (path_join dir (name s)) = None"
    using Cons.prems by simp_all
  have rest: "\<forall>s\<in>set specs. sharp_toBuffer env (encoded_pipeline s src options) = Inr (enc s)"
    "\<forall>s\<in>set specs. fs_writeFile_error env (path_join dir (name s)) = None"
    using Cons.prems by simp_all
  show ?case
    using enc wr
    by (simp add: generateImage_eq Cons.IH [OF rest] log_event_def Let_def)
qed

lemma store_all_append: "store_all (xs @ ys) fs = store_all ys (store_all xs fs)"
  by (induction xs arbitrary: fs) auto

lemma written_files:
  "s \<in> set specs \<Longrightarrow> store_all (map (\<lambda>s. (f s, g s)) specs) fs (f s) \<noteq> None"
proof (induction specs rule: rev_induct)
  case Nil
  then show ?case by simp
next
  case (snoc x xs)
  then show ?case by (cases "f s = f x") (auto simp: store_all_append)
qed

lemma generator_calls_specs:
  "generator_calls (concat (map (\<lambda>s. [Invoke_generateImage (h s) (d s), SharpToBuffer (p s), FsWriteFile (d s) (e s)]) specs))
     = length specs"
  by (induction specs) simp_all

lemma resolver_calls_specs:
  "resolver_calls (concat (map (\<lambda>s. [Invoke_generateImage (h s) (d s), SharpToBuffer (p s), FsWriteFile (d s) (e s)]) specs))
     = 0"
  by (induction specs) simp_all

text \<open>
  The run for Android icons from one source that passes, when the directory creation,
  every encoding and every write succeed.
\<close>

lemma android_icon_run_eq:
  assumes "sources opts = [source]"
    and "files w source = Some buf"
    and "sharp_metadata env buf =
           Inr \<lparr>md_format = Some ''png'', md_width = Some 1024, md_height = Some 1024\<rparr>"
    and "fs_ensureDir_error env (path_join root (subpath ANDROID ICON)) = None"
    and "\<forall>s\<in>set (images (RESOURCES ANDROID ICON)).
           \<not> isl (sharp_toBuffer env (encoded_pipeline s (sharp buf) options))"
    and "\<forall>s\<in>set (images (RESOURCES ANDROID ICON)).
           fs_writeFile_error env (path_join (path_join root (subpath ANDROID ICON)) (name s)) = None"
    and "options = (case encodeOptions opts of Some own \<Rightarrow> Some own | None \<Rightarrow> shared)"
  shows "run env subpath ANDROID root [(ICON, opts)] shared w =
      (Inr (map (\<lambda>s. \<lparr>outputPath = path_join (path_join root (subpath ANDROID ICON)) (name s),
                      spec = s, sourcePath = source\<rparr>) (images (RESOURCES ANDROID ICON))),
       w\<lparr>files := store_all (map (\<lambda>s. (path_join (path_join root (subpath ANDROID ICON)) (name s),
                     projr (sharp_toBuffer env (encoded_pipeline s (sharp buf) options))))
                   (images (RESOURCES ANDROID ICON))) (files w),
         events := events w
           @ [FsEnsureDir (path_join root (subpath ANDROID ICON)), Invoke_resolveSourceImage ICON [source]]
           @ source_events (files w) source
           @ concat (map (\<lambda>s.
              [Invoke_generateImage (ImageSchema.truncate s)
                 (path_join (path_join root (subpath ANDROID ICON)) (name s)),
               SharpToBuffer (encoded_pipeline s (sharp buf) options),
               FsWriteFile (path_join (path_join root (subpath ANDROID ICON)) (name s))
                 (projr (sharp_toBuffer env (encoded_pipeline s (sharp buf) options)))])
              (images (RESOURCES ANDROID ICON)))\<rparr>)"
proof -
  let ?dir = "path_join root (subpath ANDROID ICON)"
  let ?specs = "images (RESOURCES ANDROID ICON)"
  let ?enc = "\<lambda>s. projr (sharp_toBuffer env (encoded_pipeline s (sharp buf) options))"
  let ?w1 = "log_event (Invoke_resolveSourceImage ICON [source]) (log_event (FsEnsureDir ?dir) w)"
  have pass: "outcome env ICON (files ?w1) source = Inr (source, sharp buf)"
    using assms(2,3)
    by (simp add: outcome_def try_source_def readFile_def metadata_def sharp_def log_event_def Let_def)
  have res: "resolveSourceImage env ICON ([] @ source # []) None ?w1 =
      (Inr (source, sharp buf),
       ?w1\<lparr>events := events ?w1 @ concat (map (source_events (files ?w1)) ([] @ [source]))\<rparr>)"
    by (rule resolve_first_pass [OF _ pass]) simp
  have enc: "\<forall>s\<in>set ?specs. sharp_toBuffer env (encoded_pipeline s (sharp buf) options) = Inr (?enc s)"
    using assms(5) by (auto simp: isl_def dest!: bspec split: sum.splits)
  have wr: "\<forall>s\<in>set ?specs. fs_writeFile_error env (path_join ?dir (name s)) = None"
    using assms(6) by simp
  note gen = generate_specs_ok [OF enc wr, of source]
  show ?thesis
    using res gen assms(1,4) assms(7) [symmetric]
    by (simp add: run_type_def ensureDir_def log_event_def Let_def del: RESOURCES.simps)
qed

text \<open>
  C7. The runner for Android, asked for icons with one source that is a png of 1024 by
  1024, with the directory creation, every encoding and every write succeeding, calls the
  resolver once and the generator once per catalog entry, and returns six generated
  images, one per icon density and in catalog order, whose file names are those of the
  catalog and differ from each other; each destination file exists afterwards.
\<close>

theorem run_android_icon:
  assumes "sources opts = [source]"
    and "files w source = Some buf"
    and "sharp_metadata env buf =
           Inr \<lparr>md_format = Some ''png'', md_width = Some 1024, md_height = Some 1024\<rparr>"
    and "fs_ensureDir_error env (path_join root (subpath ANDROID ICON)) = None"
    and "\<forall>s\<in>set (images (RESOURCES ANDROID ICON)).
           \<not> isl (sharp_toBuffer env (encoded_pipeline s (sharp buf)
                     (case encodeOptions opts of Some own \<Rightarrow> Some own | None \<Rightarrow> shared)))"
    and "\<forall>s\<in>set (images (RESOURCES ANDROID ICON)).
           fs_writeFile_error env (path_join (path_join root (subpath ANDROID ICON)) (name s)) = None"
  shows "fst (run env subpath ANDROID root [(ICON, opts)] shared w) =
           Inr (map (\<lambda>s. \<lparr>outputPath = path_join (path_join root (subpath ANDROID ICON)) (name s),
                           spec = s, sourcePath = source\<rparr>)
                  (images (RESOURCES ANDROID ICON)))
       \<and> length (projr (fst (run env subpath ANDROID root [(ICON, opts)] shared w))) = 6
       \<and> map (density \<circ> spec) (projr (fst (run env subpath ANDROID root [(ICON, opts)] shared w))) =
           [Some LDPI, Some MDPI, Some HDPI, Some XHDPI, Some XXHDPI, Some XXXHDPI]
       \<and> distinct (map (name \<circ> spec) (projr (fst (run env subpath ANDROID root [(ICON, opts)] shared w))))
       \<and> resolver_calls (new_events w (snd (run env subpath ANDROID root [(ICON, opts)] shared w))) = 1
       \<and> generator_calls (new_events w (snd (run env subpath ANDROID root [(ICON, opts)] shared w))) =
           length (images (RESOURCES ANDROID ICON))
       \<and> (\<forall>g\<in>set (projr (fst (run env subpath ANDROID root [(ICON, opts)] shared w))).
            files (snd (run env subpath ANDROID root [(ICON, opts)] shared w)) (outputPath g) \<noteq> None)"
proof -
  let ?dir = "path_join root (subpath ANDROID ICON)"
  let ?options = "case encodeOptions opts of Some own \<Rightarrow> Some own | None \<Rightarrow> shared"
  let ?specs = "images (RESOURCES ANDROID ICON)"
  let ?enc = "\<lambda>s. projr (sharp_toBuffer env (encoded_pipeline s (sharp buf) ?options))"
  let ?trio = "\<lambda>s. [Invoke_generateImage (ImageSchema.truncate s) (path_join ?dir (name s)),
      SharpToBuffer (encoded_pipeline s (sharp buf) ?options),
      FsWriteFile (path_join ?dir (name s)) (?enc s)]"
  note r = android_icon_run_eq [where env = env and subpath = subpath and root = root
      and opts = opts and shared = shared and w = w and source = source and buf = buf
      and options = ?options, OF assms refl]
  have calls1: "resolver_calls ([FsEnsureDir ?dir, Invoke_resolveSourceImage ICON [source]]
      @ source_events (files w) source @ concat (map ?trio ?specs)) = 1"
    using resolver_calls_source_events [of "files w" "[source]"]
    by (simp add: resolver_calls_append resolver_calls_specs del: RESOURCES.simps)
  have calls2: "generator_calls ([FsEnsureDir ?dir, Invoke_resolveSourceImage ICON [source]]
      @ source_events (files w) source @ concat (map ?trio ?specs)) = length ?specs"
    using generator_calls_source_events [of "files w" "[source]"]
    by (simp add: generator_calls_append generator_calls_specs del: RESOURCES.simps)
  have six: "length ?specs = 6"
    by simp
  have dens: "map density ?specs = [Some LDPI, Some MDPI, Some HDPI, Some XHDPI, Some XXHDPI, Some XXXHDPI]"
    by (simp add: img_def)
  have names: "distinct (map name ?specs)"
    by (simp add: img_def)
  have exist: "\<forall>s\<in>set ?specs.
      store_all (map (\<lambda>s. (path_join ?dir (name s), ?enc s)) ?specs) (files w) (path_join ?dir (name s)) \<noteq> None"
    using written_files [of _ ?specs "\<lambda>s. path_join ?dir (name s)" ?enc "files w"] by blast
  show ?thesis
    unfolding r using calls1 calls2 six dens names exist
    by (simp add: comp_def del: RESOURCES.simps)
qed

theorem run_android_icon_witness:
  "files example_world ''b.png'' = Some [0, 1024, 1024]
   \<and> fst (run example_env example_subpath ANDROID ''resources''
          [(ICON, \<lparr>sources = [''b.png''], encodeOptions = None\<rparr>)] (Some [(''quality'', 80)]) example_world)
     = Inr [
        \<lparr>outputPath = ''resources/android/icon/drawable-ldpi-icon.png'',
          spec = img ''drawable-ldpi-icon.png'' 36 36 (Some LDPI) None, sourcePath = ''b.png''\<rparr>,
        \<lparr>outputPath = ''resources/android/icon/drawable-mdpi-icon.png'',
          spec = img ''drawable-mdpi-icon.png'' 48 48 (Some MDPI) None, sourcePath = ''b.png''\<rparr>,
        \<lparr>outputPath = ''resources/android/icon/drawable-hdpi-icon.png'',
          spec = img ''drawable-hdpi-icon.png'' 72 72 (Some HDPI) None, sourcePath = ''b.png''\<rparr>,
        \<lparr>outputPath = ''resources/android/icon/drawable-xhdpi-icon.png'',
          spec = img ''drawable-xhdpi-icon.png'' 96 96 (Some XHDPI) None, sourcePath = ''b.png''\<rparr>,
        \<lparr>outputPath = ''resources/android/icon/drawable-xxhdpi-icon.png'',
          spec = img ''drawable-xxhdpi-icon.png'' 144 144 (Some XXHDPI) None, sourcePath = ''b.png''\<rparr>,
        \<lparr>outputPath = ''resources/android/icon/drawable-xxxhdpi-icon.png'',
          spec = img ''drawable-xxxhdpi-icon.png'' 192 192 (Some XXXHDPI) None, sourcePath = ''b.png''\<rparr>]
   \<and> resolver_calls (new_events example_world (snd (run example_env example_subpath ANDROID ''resources''
          [(ICON, \<lparr>sources = [''b.png''], encodeOptions = None\<rparr>)] (Some [(''quality'', 80)]) example_world)))
     = 1
   \<and> generator_calls (new_events example_world (snd (run example_env example_subpath ANDROID ''resources''
          [(ICON, \<lparr>sources = [''b.png''], encodeOptions = None\<rparr>)] (Some [(''quality'', 80)]) example_world)))
     = 6"
proof -
  have h1: "sources \<lparr>sources = [''b.png''], encodeOptions = None\<rparr> = [''b.png'']"
    by simp
  have h2: "files example_world ''b.png'' = Some [0, 1024, 1024]"
    by (simp add: example_world_def example_files_def)
  have h3: "sharp_metadata example_env [0, 1024, 1024] =
      Inr \<lparr>md_format = Some ''png'', md_width = Some 1024, md_height = Some 1024\<rparr>"
    by (simp add: example_env_def)
  have h4: "fs_ensureDir_error example_env (path_join ''resources'' (example_subpath ANDROID ICON)) = None"
    by (simp add: example_env_def)
  have h5: "\<forall>s\<in>set (images (RESOURCES ANDROID ICON)).
      \<not> isl (sharp_toBuffer example_env (encoded_pipeline s (sharp [0, 1024, 1024])
            (case encodeOptions \<lparr>sources = [''b.png''], encodeOptions = None\<rparr> of
               Some own \<Rightarrow> Some own | None \<Rightarrow> Some [(''quality'', 80)])))"
    by (simp add: example_env_def example_toBuffer_def encoded_pipeline_def transformImage_def
        resize_def png_def sharp_def img_def)
  have h6: "\<forall>s\<in>set (images (RESOURCES ANDROID ICON)).
      fs_writeFile_error example_env (path_join (path_join ''resources'' (example_subpath ANDROID ICON)) (name s)) = None"
    by (simp add: example_env_def)
  show ?thesis
    using run_android_icon [where env = example_env and subpath = example_subpath
        and root = "''resources''" and shared = "Some [(''quality'', 80)]" and w = example_world
        and opts = "\<lparr>sources = [''b.png''], encodeOptions = None\<rparr>"
        and source = "''b.png''" and buf = "[0, 1024, 1024]", OF h1 h2 h3 h4 h5 h6] h2
    by (simp add: img_def path_join_def)
qed

section \<open>Determinism\<close>

lemma in_step_start: "\<forall>p\<in>S. files a p = files b p \<Longrightarrow> in_step S a b a b"
  by (simp add: in_step_def)

lemma in_step_events:
  "in_step S a b w1 w2 \<Longrightarrow>
     in_step S a b (w1\<lparr>events := events w1 @ es\<rparr>) (w2\<lparr>events := events w2 @ es\<rparr>)"
  by (auto simp: in_step_def)

lemma in_step_store:
  "in_step S a b w1 w2 \<Longrightarrow>
     in_step (insert path S) a b
       (w1\<lparr>files := (files w1)(path \<mapsto> buf), events := events w1 @ es\<rparr>)
       (w2\<lparr>files := (files w2)(path \<mapsto> buf), events := events w2 @ es\<rparr>)"
  by (auto simp: in_step_def)

lemma in_step_subset: "in_step S a b w1 w2 \<Longrightarrow> T \<subseteq> S \<Longrightarrow> in_step T a b w1 w2"
  by (auto simp: in_step_def)

lemma in_step_new_events:
  "in_step S a b w1 w2 \<Longrightarrow> new_events a w1 = new_events b w2"
  by (auto simp: in_step_def new_events_def)

lemma in_step_files: "in_step S a b w1 w2 \<Longrightarrow> p \<in> S \<Longrightarrow> files w1 p = files w2 p"
  by (simp add: in_step_def)

lemma outcome_cong:
  "fs1 source = fs2 source \<Longrightarrow> outcome env t fs1 source = outcome env t fs2 source"
  by (simp add: outcome_def try_source_def readFile_def validator_eq Let_def
      split: option.splits sum.splits)

lemma source_events_cong:
  "fs1 source = fs2 source \<Longrightarrow> source_events fs1 source = source_events fs2 source"
  by (simp add: source_events_def)

lemma resolve_loop_in_step:
  assumes "in_step S a b w1 w2" and "set srcs \<subseteq> S"
  shows "fst (resolve_loop env t srcs errors w1) = fst (resolve_loop env t srcs errors w2)
       \<and> in_step S a b (snd (resolve_loop env t srcs errors w1)) (snd (resolve_loop env t srcs errors w2))"
  using assms
proof (induction srcs arbitrary: errors w1 w2)
  case Nil
  then show ?case by simp
next
  case (Cons s srcs)
  have same: "files w1 s = files w2 s"
    using Cons.prems by (simp add: in_step_def)
  have o: "outcome env t (files w1) s = outcome env t (files w2) s"
    using same by (rule outcome_cong)
  have e: "source_events (files w1) s = source_events (files w2) s"
    using same by (rule source_events_cong)
  have step: "in_step S a b (w1\<lparr>events := events w1 @ source_events (files w2) s\<rparr>)
      (w2\<lparr>events := events w2 @ source_events (files w2) s\<rparr>)"
    by (rule in_step_events [OF Cons.prems(1)])
  show ?case
  proof (cases "outcome env t (files w2) s")
    case (Inl err)
    have sub: "set srcs \<subseteq> S"
      using Cons.prems(2) by simp
    show ?thesis
      using Cons.IH [OF step sub] by (simp add: try_source_eq o e Inl)
  next
    case (Inr found)
    then show ?thesis
      using step by (simp add: try_source_eq o e)
  qed
qed

lemma resolveSourceImage_in_step:
  assumes "in_step S a b w1 w2" and "set srcs \<subseteq> S"
  shows "fst (resolveSourceImage env t srcs errstream w1) = fst (resolveSourceImage env t srcs errstream w2)
       \<and> in_step S a b (snd (resolveSourceImage env t srcs errstream w1))
            (snd (resolveSourceImage env t srcs errstream w2))"
proof -
  obtain r1 es1 v1 where l1: "resolve_loop env t srcs [] w1 = ((r1, es1), v1)"
    by (metis surj_pair)
  obtain r2 es2 v2 where l2: "resolve_loop env t srcs [] w2 = ((r2, es2), v2)"
    by (metis surj_pair)
  have eq: "r2 = r1" "es2 = es1" and step: "in_step S a b v1 v2"
    using resolve_loop_in_step [OF assms, of env t "[]"] by (simp_all add: l1 l2)
  show ?thesis
  proof (cases r1)
    case None
    then show ?thesis
      using in_step_events [OF step] step
      by (simp add: resolveSourceImage_def l1 l2 eq write_warnings_eq split: option.splits)
  next
    case (Some found)
    then show ?thesis
      using step by (simp add: resolveSourceImage_def l1 l2 eq)
  qed
qed

lemma generateImage_in_step:
  assumes "in_step S a b w1 w2"
  shows "fst (generateImage env image' src dest options w1) = fst (generateImage env image' src dest options w2)
       \<and> in_step S a b (snd (generateImage env image' src dest options w1))
            (snd (generateImage env image' src dest options w2))
       \<and> (fst (generateImage env image' src dest options w1) = Inr ()
            \<longrightarrow> in_step (insert dest S) a b (snd (generateImage env image' src dest options w1))
                  (snd (generateImage env image' src dest options w2)))"
proof (cases "sharp_toBuffer env (encoded_pipeline image' src options)")
  case (Inl e)
  then show ?thesis
    using in_step_events [OF assms] by (simp add: generateImage_eq)
next
  case (Inr buf)
  show ?thesis
  proof (cases "fs_writeFile_error env dest")
    case None
    have st: "in_step (insert dest S) a b
        (w1\<lparr>files := (files w1)(dest \<mapsto> buf),
            events := events w1 @ [SharpToBuffer (encoded_pipeline image' src options), FsWriteFile dest buf]\<rparr>)
        (w2\<lparr>files := (files w2)(dest \<mapsto> buf),
            events := events w2 @ [SharpToBuffer (encoded_pipeline image' src options), FsWriteFile dest buf]\<rparr>)"
      by (rule in_step_store [OF assms])
    show ?thesis
      using st in_step_subset [OF st, of S] by (auto simp: generateImage_eq Inr None)
  next
    case (Some e)
    then show ?thesis
      using in_step_events [OF assms] by (simp add: generateImage_eq Inr)
  qed
qed

lemma generate_specs_alike:
  assumes "in_step S a b w1 w2"
  shows "alike S a b (generate_specs env dir srcPath src options specs w1)
           (generate_specs env dir srcPath src options specs w2)"
  using assms
proof (induction specs arbitrary: S w1 w2)
  case Nil
  then show ?case by (simp add: alike_def)
next
  case (Cons s specs)
  let ?dest = "path_join dir (name s)"
  let ?ev = "Invoke_generateImage (ImageSchema.truncate s) ?dest"
  let ?g = "\<lparr>outputPath = ?dest, spec = s, sourcePath = srcPath\<rparr>"
  have logged: "in_step S a b (log_event ?ev w1) (log_event ?ev w2)"
    using in_step_events [OF Cons.prems] by (simp add: log_event_def)
  obtain g1 v1 where g1: "generateImage env s src ?dest options (log_event ?ev w1) = (g1, v1)"
    by (metis surj_pair)
  obtain g2 v2 where g2: "generateImage env s src ?dest options (log_event ?ev w2) = (g2, v2)"
    by (metis surj_pair)
  have geq: "g2 = g1" and gstep: "in_step S a b v1 v2"
    and gok: "g1 = Inr () \<longrightarrow> in_step (insert ?dest S) a b v1 v2"
    using generateImage_in_step [OF logged, of env s src ?dest options] by (simp_all add: g1 g2)
  have unfold1: "generate_specs env dir srcPath src options (s # specs) w1 =
      (case g1 of Inl e \<Rightarrow> (Inl e, v1)
       | Inr u \<Rightarrow> (case generate_specs env dir srcPath src options specs v1 of
           (Inl e, x) \<Rightarrow> (Inl e, x)
         | (Inr generated, x) \<Rightarrow> (Inr (?g # generated), x)))"
    using g1 by (simp add: Let_def split: sum.splits)
  have unfold2: "generate_specs env dir srcPath src options (s # specs) w2 =
      (case g1 of Inl e \<Rightarrow> (Inl e, v2)
       | Inr u \<Rightarrow> (case generate_specs env dir srcPath src options specs v2 of
           (Inl e, x) \<Rightarrow> (Inl e, x)
         | (Inr generated, x) \<Rightarrow> (Inr (?g # generated), x)))"
    using g2 geq by (simp add: Let_def split: sum.splits)
  show ?case
  proof (cases g1)
    case (Inl e)
    then show ?thesis
      using gstep unfolding unfold1 unfold2 by (simp add: alike_def)
  next
    case (Inr u)
    then have st: "in_step (insert ?dest S) a b v1 v2"
      using gok by simp
    obtain h1 x1 where h1: "generate_specs env dir srcPath src options specs v1 = (h1, x1)"
      by (metis surj_pair)
    obtain h2 x2 where h2: "generate_specs env dir srcPath src options specs v2 = (h2, x2)"
      by (metis surj_pair)
    have ih: "alike (insert ?dest S) a b (h1, x1) (h2, x2)"
      using Cons.IH [OF st] by (simp add: h1 h2)
    have heq: "h2 = h1" and hstep: "in_step (insert ?dest S) a b x1 x2"
      and hok: "\<And>generated. h1 = Inr generated \<Longrightarrow>
          in_step (insert ?dest S \<union> outputPath ` set generated) a b x1 x2"
      using ih by (simp_all add: alike_def)
    show ?thesis
    proof (cases h1)
      case (Inl e)
      have "in_step S a b x1 x2"
        by (rule in_step_subset [OF hstep]) auto
      then show ?thesis
        unfolding unfold1 unfold2 by (simp add: alike_def Inr h1 h2 heq Inl)
    next
      case (Inr generated)
      have all: "in_step (insert ?dest S \<union> outputPath ` set generated) a b x1 x2"
        by (rule hok [OF Inr])
      have "in_step S a b x1 x2"
        by (rule in_step_subset [OF hstep]) auto
      moreover have "in_step (S \<union> outputPath ` set (?g # generated)) a b x1 x2"
        by (rule in_step_subset [OF all]) auto
      ultimately show ?thesis
        unfolding unfold1 unfold2 using \<open>g1 = Inr u\<close>
        by (simp add: alike_def h1 h2 heq Inr)
    qed
  qed
qed

lemma run_type_alike:
  assumes "in_step S a b w1 w2" and "set (sources opts) \<subseteq> S"
  shows "alike S a b (run_type env subpath platform root t opts shared w1)
           (run_type env subpath platform root t opts shared w2)"
proof (cases "fs_ensureDir_error env (path_join root (subpath platform t))")
  case (Some e)
  then show ?thesis
    using in_step_events [OF assms(1)]
    by (simp add: run_type_def ensureDir_def log_event_def Let_def alike_def)
next
  case None
  let ?dir = "path_join root (subpath platform t)"
  let ?pre = "\<lambda>w. log_event (Invoke_resolveSourceImage t (sources opts)) (log_event (FsEnsureDir ?dir) w)"
  have logged: "in_step S a b (?pre w1) (?pre w2)"
    using in_step_events [OF assms(1), of "[FsEnsureDir ?dir, Invoke_resolveSourceImage t (sources opts)]"]
    by (simp add: log_event_def)
  obtain r1 v1 where r1: "resolveSourceImage env t (sources opts) None (?pre w1) = (r1, v1)"
    by (metis surj_pair)
  obtain r2 v2 where r2: "resolveSourceImage env t (sources opts) None (?pre w2) = (r2, v2)"
    by (metis surj_pair)
  have req: "r2 = r1" and rstep: "in_step S a b v1 v2"
    using resolveSourceImage_in_step [OF logged assms(2), of env t None] by (simp_all add: r1 r2)
  show ?thesis
  proof (cases r1)
    case (Inl e)
    then show ?thesis
      using rstep r1 r2 req
      by (simp add: run_type_def ensureDir_def None Let_def alike_def)
  next
    case (Inr found)
    obtain srcPath src where found: "found = (srcPath, src)"
      by (cases found)
    show ?thesis
      using generate_specs_alike [OF rstep, of env ?dir srcPath src
          "case encodeOptions opts of Some own \<Rightarrow> Some own | None \<Rightarrow> shared"
          "images (RESOURCES platform t)"] r1 r2 req Inr found
      by (simp add: run_type_def ensureDir_def None Let_def del: RESOURCES.simps)
  qed
qed

lemma candidate_paths_Cons:
  "candidate_paths ((t, opts) # requested) = set (sources opts) \<union> candidate_paths requested"
  by (simp add: candidate_paths_def)

lemma run_alike:
  assumes "in_step S a b w1 w2" and "candidate_paths requested \<subseteq> S"
  shows "alike S a b (run env subpath platform root requested shared w1)
           (run env subpath platform root requested shared w2)"
  using assms
proof (induction requested arbitrary: S w1 w2)
  case Nil
  then show ?case by (simp add: alike_def)
next
  case (Cons req requested)
  obtain t opts where req: "req = (t, opts)"
    by (cases req)
  have sub: "set (sources opts) \<subseteq> S" and rest: "candidate_paths requested \<subseteq> S"
    using Cons.prems(2) by (simp_all add: req candidate_paths_Cons)
  obtain g1 v1 where g1: "run_type env subpath platform root t opts shared w1 = (g1, v1)"
    by (metis surj_pair)
  obtain g2 v2 where g2: "run_type env subpath platform root t opts shared w2 = (g2, v2)"
    by (metis surj_pair)
  have first: "alike S a b (g1, v1) (g2, v2)"
    using run_type_alike [OF Cons.prems(1) sub, of env subpath platform root t shared]
    by (simp add: g1 g2)
  have geq: "g2 = g1" and gstep: "in_step S a b v1 v2"
    and gok: "\<And>generated. g1 = Inr generated \<Longrightarrow> in_step (S \<union> outputPath ` set generated) a b v1 v2"
    using first by (simp_all add: alike_def)
  show ?case
  proof (cases g1)
    case (Inl e)
    then show ?thesis
      using gstep by (simp add: req g1 g2 geq alike_def)
  next
    case (Inr generated)
    let ?S = "S \<union> outputPath ` set generated"
    have st: "in_step ?S a b v1 v2"
      by (rule gok [OF Inr])
    have rest': "candidate_paths requested \<subseteq> ?S"
      using rest by auto
    obtain h1 x1 where h1: "run env subpath platform root requested shared v1 = (h1, x1)"
      by (metis surj_pair)
    obtain h2 x2 where h2: "run env subpath platform root requested shared v2 = (h2, x2)"
      by (metis surj_pair)
    have ih: "alike ?S a b (h1, x1) (h2, x2)"
      using Cons.IH [OF st rest'] by (simp add: h1 h2)
    have heq: "h2 = h1" and hstep: "in_step ?S a b x1 x2"
      and hok: "\<And>others. h1 = Inr others \<Longrightarrow> in_step (?S \<union> outputPath ` set others) a b x1 x2"
      using ih by (simp_all add: alike_def)
    have small: "in_step S a b x1 x2"
      by (rule in_step_subset [OF hstep]) auto
    show ?thesis
    proof (cases h1)
      case (Inl e)
      then show ?thesis
        using small by (simp add: req g1 g2 geq \<open>g1 = Inr generated\<close> h1 h2 heq alike_def)
    next
      case (Inr others)
      have "in_step (S \<union> outputPath ` set (generated @ others)) a b x1 x2"
        by (rule in_step_subset [OF hok [OF Inr]]) auto
      then show ?thesis
        using small by (simp add: req g1 g2 geq \<open>g1 = Inr generated\<close> h1 h2 heq Inr alike_def)
    qed
  qed
qed

text \<open>
  C8. The pipeline is deterministic. Two runs of the runner with the same platform,
  request, options and collaborators, in worlds whose candidate source files are the
  same, return the same result, make the same calls with the same arguments in the same
  order (so they write the same bytes to the same paths), and after a successful run
  every generated output file holds the same bytes in both worlds; the earlier log and the
  other files of the two worlds do not matter. In particular \<open>generateImage\<close> on the
  same spec, source, destination and options returns the same result and writes the same
  bytes, whatever the world.
\<close>

theorem pipeline_deterministic:
  assumes "\<forall>p\<in>candidate_paths requested. files w1 p = files w2 p"
  shows "fst (run env subpath platform root requested shared w1) =
           fst (run env subpath platform root requested shared w2)
       \<and> new_events w1 (snd (run env subpath platform root requested shared w1)) =
           new_events w2 (snd (run env subpath platform root requested shared w2))
       \<and> (\<forall>generated. fst (run env subpath platform root requested shared w1) = Inr generated \<longrightarrow>
            (\<forall>g\<in>set generated.
               files (snd (run env subpath platform root requested shared w1)) (outputPath g) =
               files (snd (run env subpath platform root requested shared w2)) (outputPath g)))
       \<and> fst (generateImage env image' src dest options wa) =
           fst (generateImage env image' src dest options wb)
       \<and> new_events wa (snd (generateImage env image' src dest options wa)) =
           new_events wb (snd (generateImage env image' src dest options wb))"
proof -
  let ?S = "candidate_paths requested"
  have start: "in_step ?S w1 w2 w1 w2"
    by (rule in_step_start [OF assms])
  have al: "alike ?S w1 w2 (run env subpath platform root requested shared w1)
      (run env subpath platform root requested shared w2)"
    by (rule run_alike [OF start]) simp
  have res: "fst (run env subpath platform root requested shared w1) =
      fst (run env subpath platform root requested shared w2)"
    using al by (simp add: alike_def)
  have ev: "new_events w1 (snd (run env subpath platform root requested shared w1)) =
      new_events w2 (snd (run env subpath platform root requested shared w2))"
    using al by (auto simp: alike_def dest: in_step_new_events)
  have out: "\<forall>generated. fst (run env subpath platform root requested shared w1) = Inr generated \<longrightarrow>
      (\<forall>g\<in>set generated.
         files (snd (run env subpath platform root requested shared w1)) (outputPath g) =
         files (snd (run env subpath platform root requested shared w2)) (outputPath g))"
  proof (intro allI impI ballI)
    fix generated g
    assume r: "fst (run env subpath platform root requested shared w1) = Inr generated"
      and g: "g \<in> set generated"
    have "in_step (?S \<union> outputPath ` set generated) w1 w2
        (snd (run env subpath platform root requested shared w1))
        (snd (run env subpath platform root requested shared w2))"
      using al r by (simp add: alike_def)
    then show "files (snd (run env subpath platform root requested shared w1)) (outputPath g) =
        files (snd (run env subpath platform root requested shared w2)) (outputPath g)"
      by (rule in_step_files) (use g in simp)
  qed
  have any: "in_step {} wa wb wa wb"
    by (rule in_step_start) simp
  note g = generateImage_in_step [OF any, of env image' src dest options]
  have gres: "fst (generateImage env image' src dest options wa) =
      fst (generateImage env image' src dest options wb)"
    using g by simp
  have gev: "new_events wa (snd (generateImage env image' src dest options wa)) =
      new_events wb (snd (generateImage env image' src dest options wb))"
    using g by (auto dest: in_step_new_events)
  show ?thesis
    using res ev out gres gev by simp
qed

theorem pipeline_deterministic_witness:
  "files example_world ''b.png'' = files example_world_later ''b.png''
   \<and> events example_world \<noteq> events example_world_later
   \<and> files example_world ''resources/android/icon/drawable-ldpi-icon.png'' = None
   \<and> files example_world_later ''resources/android/icon/drawable-ldpi-icon.png'' = Some [0, 1, 1]
   \<and> fst (run example_env example_subpath ANDROID ''resources''
          [(ICON, \<lparr>sources = [''b.png''], encodeOptions = None\<rparr>)] (Some [(''quality'', 80)]) example_world)
     = fst (run example_env example_subpath ANDROID ''resources''
          [(ICON, \<lparr>sources = [''b.png''], encodeOptions = None\<rparr>)] (Some [(''quality'', 80)]) example_world_later)
   \<and> new_events example_world (snd (run example_env example_subpath ANDROID ''resources''
          [(ICON, \<lparr>sources = [''b.png''], encodeOptions = None\<rparr>)] (Some [(''quality'', 80)]) example_world))
     = new_events example_world_later (snd (run example_env example_subpath ANDROID ''resources''
          [(ICON, \<lparr>sources = [''b.png''], encodeOptions = None\<rparr>)] (Some [(''quality'', 80)]) example_world_later))
   \<and> files (snd (run example_env example_subpath ANDROID ''resources''
          [(ICON, \<lparr>sources = [''b.png''], encodeOptions = None\<rparr>)] (Some [(''quality'', 80)]) example_world))
        ''resources/android/icon/drawable-ldpi-icon.png''
     = files (snd (run example_env example_subpath ANDROID ''resources''
          [(ICON, \<lparr>sources = [''b.png''], encodeOptions = None\<rparr>)] (Some [(''quality'', 80)]) example_world_later))
        ''resources/android/icon/drawable-ldpi-icon.png''
   \<and> fst (generateImage example_env \<lparr>width = 36, height = 36\<rparr> (sharp [0, 1024, 1024])
          ''out/icon.png'' None example_world)
     = fst (generateImage example_env \<lparr>width = 36, height = 36\<rparr> (sharp [0, 1024, 1024])
          ''out/icon.png'' None example_world_later)
   \<and> new_events example_world (snd (generateImage example_env \<lparr>width = 36, height = 36\<rparr>
          (sharp [0, 1024, 1024]) ''out/icon.png'' None example_world))
     = new_events example_world_later (snd (generateImage example_env \<lparr>width = 36, height = 36\<rparr>
          (sharp [0, 1024, 1024]) ''out/icon.png'' None example_world_later))"
proof -
  let ?req = "[(ICON, \<lparr>sources = [''b.png''], encodeOptions = None\<rparr>)]"
  let ?shared = "Some [(''quality'', 80 :: int)]"
  have same: "\<forall>p\<in>candidate_paths ?req. files example_world p = files example_world_later p"
    by (simp add: candidate_paths_def example_world_def example_world_later_def)
  note th = pipeline_deterministic [where requested = ?req and ?w1.0 = example_world
      and ?w2.0 = example_world_later and env = example_env and subpath = example_subpath
      and platform = ANDROID and root = "''resources''" and shared = ?shared
      and image' = "\<lparr>width = 36, height = 36\<rparr>" and src = "sharp [0, 1024, 1024]"
      and dest = "''out/icon.png''" and options = None
      and wa = example_world and wb = example_world_later, OF same]
  have h1: "sources \<lparr>sources = [''b.png''], encodeOptions = None\<rparr> = [''b.png'']"
    by simp
  have h2: "files example_world ''b.png'' = Some [0, 1024, 1024]"
    by (simp add: example_world_def example_files_def)
  have h3: "sharp_metadata example_env [0, 1024, 1024] =
      Inr \<lparr>md_format = Some ''png'', md_width = Some 1024, md_height = Some 1024\<rparr>"
    by (simp add: example_env_def)
  have h4: "fs_ensureDir_error example_env (path_join ''resources'' (example_subpath ANDROID ICON)) = None"
    by (simp add: example_env_def)
  have h5: "\<forall>s\<in>set (images (RESOURCES ANDROID ICON)).
      \<not> isl (sharp_toBuffer example_env (encoded_pipeline s (sharp [0, 1024, 1024]) ?shared))"
    by (simp add: example_env_def example_toBuffer_def encoded_pipeline_def transformImage_def
        resize_def png_def sharp_def img_def)
  have h6: "\<forall>s\<in>set (images (RESOURCES ANDROID ICON)).
      fs_writeFile_error example_env
        (path_join (path_join ''resources'' (example_subpath ANDROID ICON)) (name s)) = None"
    by (simp add: example_env_def)
  have h7: "?shared = (case encodeOptions \<lparr>sources = [''b.png''], encodeOptions = None\<rparr> of
      Some own \<Rightarrow> Some own | None \<Rightarrow> ?shared)"
    by simp
  have r: "fst (run example_env example_subpath ANDROID ''resources'' ?req ?shared example_world) =
      Inr (map (\<lambda>s. \<lparr>outputPath = path_join (path_join ''resources'' (example_subpath ANDROID ICON)) (name s),
                      spec = s, sourcePath = ''b.png''\<rparr>) (images (RESOURCES ANDROID ICON)))"
    using android_icon_run_eq [where env = example_env and subpath = example_subpath
        and root = "''resources''" and shared = ?shared and w = example_world
        and opts = "\<lparr>sources = [''b.png''], encodeOptions = None\<rparr>"
        and source = "''b.png''" and buf = "[0, 1024, 1024]" and options = ?shared,
        OF h1 h2 h3 h4 h5 h6 h7]
    by simp
  have out: "files (snd (run example_env example_subpath ANDROID ''resources'' ?req ?shared example_world))
        ''resources/android/icon/drawable-ldpi-icon.png''
     = files (snd (run example_env example_subpath ANDROID ''resources'' ?req ?shared example_world_later))
        ''resources/android/icon/drawable-ldpi-icon.png''"
    using th [THEN conjunct2, THEN conjunct2, THEN conjunct1, rule_format, OF r,
        of "\<lparr>outputPath = ''resources/android/icon/drawable-ldpi-icon.png'',
             spec = img ''drawable-ldpi-icon.png'' 36 36 (Some LDPI) None, sourcePath = ''b.png''\<rparr>"]
    by (simp add: path_join_def img_def del: run.simps)
  have w: "files example_world ''b.png'' = files example_world_later ''b.png''"
    "events example_world \<noteq> events example_world_later"
    "files example_world ''resources/android/icon/drawable-ldpi-icon.png'' = None"
    "files example_world_later ''resources/android/icon/drawable-ldpi-icon.png'' = Some [0, 1, 1]"
    by (simp_all add: example_world_def example_world_later_def example_files_def)
  show ?thesis
    using th out w by (simp del: run.simps)
qed

end
